theory Spec2Isabelle
  imports Complex_Main "HOL-Library.Multiset"
begin

chapter \<open>ComplianceShield: the rule-evaluation engine\<close>

text \<open>
  A shallow embedding of the scanner of \<^verbatim>\<open>server.js\<close> (the most recent copy of the
  file, which carries the contrast, keyboard and focus rules, the scan-history diff
  route and the monthly monitoring interval). JavaScript numbers are modelled by
  \<^typ>\<open>real\<close> and \<^typ>\<open>int\<close>, strings by \<^typ>\<open>string\<close> (8-bit code units), \<^verbatim>\<open>undefined\<close>
  and \<^verbatim>\<open>null\<close> by \<^const>\<open>None\<close>, exceptions and promise rejections by the left
  summand of a sum type.
\<close>

section \<open>The model\<close>

subsection \<open>Strings\<close>

text \<open>
  The white space of \<^verbatim>\<open>String.prototype.trim\<close> and of the regular expression class
  \<^verbatim>\<open>\s\<close>, as far as it lies in the 8-bit range: tab, line feed, vertical tab, form feed,
  carriage return, space and no-break space.
\<close>

definition isSpace :: "char \<Rightarrow> bool" where
  "isSpace c = (c \<in> set [CHR 0x09, CHR 0x0A, CHR 0x0B, CHR 0x0C, CHR 0x0D, CHR 0x20, CHR 0xA0])"

definition isDigit :: "char \<Rightarrow> bool" where
  "isDigit c = (c \<in> set ''0123456789'')"

definition isHexDigit :: "char \<Rightarrow> bool" where
  "isHexDigit c = (c \<in> set ''0123456789abcdef'')"

definition trim :: "string \<Rightarrow> string" where
  "trim s = rev (dropWhile isSpace (rev (dropWhile isSpace s)))"

definition lowerChar :: "char \<Rightarrow> char" where
  "lowerChar c =
     (let n = (of_char c :: nat)
      in if (65 \<le> n \<and> n \<le> 90) \<or> (192 \<le> n \<and> n \<le> 222 \<and> n \<noteq> 215)
         then char_of (n + 32) else c)"

definition toLowerCase :: "string \<Rightarrow> string" where
  "toLowerCase s = map lowerChar s"

text \<open>
  An attribute or request field that may be absent is a \<^typ>\<open>string option\<close>. In a boolean
  position JavaScript takes \<^verbatim>\<open>undefined\<close>, \<^verbatim>\<open>null\<close> and the empty string for false.
\<close>

definition truthy :: "string option \<Rightarrow> bool" where
  "truthy v = (case v of None \<Rightarrow> False | Some s \<Rightarrow> s \<noteq> [])"

definition orElse :: "string option \<Rightarrow> string \<Rightarrow> string" where
  "orElse v d = (case v of None \<Rightarrow> d | Some s \<Rightarrow> if s \<noteq> [] then s else d)"

text \<open>\<^verbatim>\<open>a.includes(b)\<close> and \<^verbatim>\<open>a.startsWith(b)\<close> on strings.\<close>

definition startsWith :: "string \<Rightarrow> string \<Rightarrow> bool" where
  "startsWith s t = (take (length t) s = t)"

fun str_includes :: "string \<Rightarrow> string \<Rightarrow> bool" where
  "str_includes [] t = (t = [])"
| "str_includes (c # s) t = (startsWith (c # s) t \<or> str_includes s t)"

subsection \<open>Regular expressions\<close>

text \<open>
  The fragment of JavaScript's regular expressions that the source uses: literals,
  a character class under a greedy quantifier \<open>{lo,hi}\<close>, a greedy optional part,
  sequence, alternation, a capturing group and the assertions \<^verbatim>\<open>^\<close> and \<^verbatim>\<open>$\<close> (without the
  \<^verbatim>\<open>m\<close> flag). \<open>run\<close> lists every way to match at a position in the order in which a
  backtracking matcher tries them, so the head of the list is JavaScript's match. A
  matcher state is the position, the rest of the input and the captures closed so far.
\<close>

datatype re =
    Lit string
  | Cls "char \<Rightarrow> bool" nat "nat option"
  | Opt re
  | Seq "re list"
  | Alt "re list"
  | Grp re
  | Bol
  | Eol

type_synonym mstate = "nat \<times> string \<times> string list"

definition litMatches :: "bool \<Rightarrow> string \<Rightarrow> string \<Rightarrow> bool" where
  "litMatches ci lit s =
     (length lit \<le> length s \<and>
      (if ci then toLowerCase (take (length lit) s) = toLowerCase lit
       else take (length lit) s = lit))"

fun run :: "bool \<Rightarrow> re \<Rightarrow> mstate \<Rightarrow> mstate list" where
  "run ci (Lit l) (p, s, caps) =
     (if litMatches ci l s then [(p + length l, drop (length l) s, caps)] else [])"
| "run ci (Cls f lo hi) (p, s, caps) =
     (let avail = length (takeWhile f s);
          most = (case hi of None \<Rightarrow> avail | Some h \<Rightarrow> min h avail)
      in map (\<lambda>k. (p + k, drop k s, caps)) (rev [lo..<Suc most]))"
| "run ci (Opt e) st = run ci e st @ [st]"
| "run ci (Seq []) st = [st]"
| "run ci (Seq (e # es)) st = concat (map (run ci (Seq es)) (run ci e st))"
| "run ci (Alt []) st = []"
| "run ci (Alt (e # es)) st = run ci e st @ run ci (Alt es) st"
| "run ci (Grp e) (p, s, caps) =
     map (\<lambda>(p', s', caps'). (p', s', caps' @ [take (p' - p) s])) (run ci e (p, s, caps))"
| "run ci Bol (p, s, caps) = (if p = 0 then [(p, s, caps)] else [])"
| "run ci Eol (p, s, caps) = (if s = [] then [(p, s, caps)] else [])"

definition matchAt :: "bool \<Rightarrow> re \<Rightarrow> string \<Rightarrow> nat \<Rightarrow> (nat \<times> string list) option" where
  "matchAt ci e s i =
     (case run ci e (i, drop i s, []) of
        [] \<Rightarrow> None
      | (p, _, caps) # _ \<Rightarrow> Some (p, caps))"

text \<open>The leftmost start position with a match: start, end and captures.\<close>

fun firstMatch :: "bool \<Rightarrow> re \<Rightarrow> string \<Rightarrow> nat list \<Rightarrow> (nat \<times> nat \<times> string list) option" where
  "firstMatch ci e s [] = None"
| "firstMatch ci e s (i # starts) =
     (case matchAt ci e s i of
        Some (p, caps) \<Rightarrow> Some (i, p, caps)
      | None \<Rightarrow> firstMatch ci e s starts)"

text \<open>
  \<^verbatim>\<open>str.match(re)\<close> for a regular expression without the \<^verbatim>\<open>g\<close> flag: the captures of the
  leftmost match, \<^const>\<open>None\<close> for \<^verbatim>\<open>null\<close>. The flag \<open>ci\<close> is the \<^verbatim>\<open>i\<close> flag.
\<close>

definition exec :: "bool \<Rightarrow> re \<Rightarrow> string \<Rightarrow> string list option" where
  "exec ci e s =
     map_option (\<lambda>(i, p, caps). caps) (firstMatch ci e s [0..<Suc (length s)])"

definition test :: "bool \<Rightarrow> re \<Rightarrow> string \<Rightarrow> bool" where
  "test ci e s = (exec ci e s \<noteq> None)"

text \<open>
  \<^verbatim>\<open>str.match(re)\<close> with the \<^verbatim>\<open>g\<close> flag: every match from left to right, each search
  starting where the last match ended (one further after an empty match). \<^verbatim>\<open>null\<close> is
  the empty list.
\<close>

function matchAll :: "bool \<Rightarrow> re \<Rightarrow> string \<Rightarrow> nat \<Rightarrow> string list" where
  "matchAll ci e s start =
     (if length s < start then []
      else case firstMatch ci e s [start..<Suc (length s)] of
             None \<Rightarrow> []
           | Some (i, p, caps) \<Rightarrow>
               take (p - i) (drop i s) #
               matchAll ci e s (max (Suc start) (if p = i then Suc p else p)))"
  by pat_completeness auto
termination
  by (relation "measure (\<lambda>(ci, e, s, start). Suc (length s) - start)") auto

declare matchAll.simps [simp del]

subsection \<open>Color contrast utilities\<close>

datatype js_error = TypeError string

datatype rgb = RGB (c_r: nat) (c_g: nat) (c_b: nat)

text \<open>
  A property read \<^verbatim>\<open>namedColors[colorStr]\<close> on the object literal of \<^verbatim>\<open>parseColor\<close>. The
  literal has twenty color names and \<^verbatim>\<open>transparent: null\<close>; as every object literal it
  inherits from \<^verbatim>\<open>Object.prototype\<close>, whose only properties with an all-lower-case name
  are \<^verbatim>\<open>constructor\<close> and \<^verbatim>\<open>__proto__\<close>: for these two keys the read is neither
  \<^verbatim>\<open>undefined\<close>, nor \<^verbatim>\<open>null\<close>, nor a string.
\<close>

datatype js_prop = Undefined | Null | Str string | Inherited

definition namedColors :: "string \<Rightarrow> js_prop" where
  "namedColors k =
     (case map_of
        [(''white'', Str ''#ffffff''), (''black'', Str ''#000000''), (''red'', Str ''#ff0000''),
         (''green'', Str ''#008000''), (''blue'', Str ''#0000ff''), (''yellow'', Str ''#ffff00''),
         (''gray'', Str ''#808080''), (''grey'', Str ''#808080''), (''silver'', Str ''#c0c0c0''),
         (''orange'', Str ''#ffa500''), (''purple'', Str ''#800080''), (''navy'', Str ''#000080''),
         (''teal'', Str ''#008080''), (''maroon'', Str ''#800000''), (''lime'', Str ''#00ff00''),
         (''aqua'', Str ''#00ffff''), (''fuchsia'', Str ''#ff00ff''), (''olive'', Str ''#808000''),
         (''darkgray'', Str ''#a9a9a9''), (''lightgray'', Str ''#d3d3d3''),
         (''transparent'', Null)] k of
        Some v \<Rightarrow> v
      | None \<Rightarrow> if k \<in> set [''constructor'', ''__proto__''] then Inherited else Undefined)"

text \<open>
  \<^verbatim>\<open>parseInt(s, 16)\<close> and \<^verbatim>\<open>parseInt(s)\<close>, on the digit strings that the two regular
  expressions of \<^verbatim>\<open>parseColor\<close> have already checked.
\<close>

definition hexValue :: "char \<Rightarrow> nat" where
  "hexValue c = (if isDigit c then of_char c - 48 else of_char c - 87)"

definition parseInt16 :: "string \<Rightarrow> nat" where
  "parseInt16 s = foldl (\<lambda>n c. 16 * n + hexValue c) 0 s"

definition parseInt10 :: "string \<Rightarrow> nat" where
  "parseInt10 s = foldl (\<lambda>n c. 10 * n + (of_char c - 48)) 0 s"

definition re_hex :: re where
  "re_hex = Seq [Bol, Lit ''#'', Grp (Cls isHexDigit 3 (Some 8)), Eol]"

definition re_rgb :: re where
  "re_rgb = Seq [Lit ''rgb'', Opt (Lit ''a''), Lit ''('',
     Cls isSpace 0 None, Grp (Cls isDigit 1 None), Cls isSpace 0 None, Lit '','',
     Cls isSpace 0 None, Grp (Cls isDigit 1 None), Cls isSpace 0 None, Lit '','',
     Cls isSpace 0 None, Grp (Cls isDigit 1 None)]"

definition parseRgb :: "string \<Rightarrow> rgb option" where
  "parseRgb colorStr =
     (case exec False re_rgb colorStr of
        Some [m1, m2, m3] \<Rightarrow> Some (RGB (parseInt10 m1) (parseInt10 m2) (parseInt10 m3))
      | _ \<Rightarrow> None)"

definition parseHexOrRgb :: "string \<Rightarrow> rgb option" where
  "parseHexOrRgb colorStr =
     (case exec False re_hex colorStr of
        Some [m1] \<Rightarrow>
          (let hex = (if length m1 = 3
                      then [m1 ! 0, m1 ! 0, m1 ! 1, m1 ! 1, m1 ! 2, m1 ! 2] else m1)
           in if length hex = 6 \<or> length hex = 8
              then Some (RGB (parseInt16 (take 2 hex)) (parseInt16 (take 2 (drop 2 hex)))
                             (parseInt16 (take 2 (drop 4 hex))))
              else parseRgb colorStr)
      | _ \<Rightarrow> parseRgb colorStr)"

text \<open>
  \<^verbatim>\<open>parseColor\<close>: \<^const>\<open>None\<close> is its \<^verbatim>\<open>null\<close>. For the two inherited keys the variable
  \<^verbatim>\<open>colorStr\<close> becomes an object that is not a string, the test \<^verbatim>\<open>!colorStr\<close> lets it
  through, and \<^verbatim>\<open>colorStr.match\<close> raises a \<^verbatim>\<open>TypeError\<close>.
\<close>

definition parseColor :: "string \<Rightarrow> js_error + rgb option" where
  "parseColor colorStr0 =
     (if colorStr0 = [] then Inr None
      else let colorStr = toLowerCase (trim colorStr0)
           in case namedColors colorStr of
                Undefined \<Rightarrow> Inr (parseHexOrRgb colorStr)
              | Null \<Rightarrow> Inr None
              | Str v \<Rightarrow> Inr (parseHexOrRgb v)
              | Inherited \<Rightarrow> Inl (TypeError ''colorStr.match is not a function''))"

text \<open>
  Luminance and contrast are computed over the reals; \<^verbatim>\<open>Math.pow(x, 2.4)\<close> is
  \<^term>\<open>x powr 2.4\<close> (its argument is positive here).
\<close>

definition linearize :: "real \<Rightarrow> real" where
  "linearize v = (if v \<le> 0.03928 then v / 12.92 else ((v + 0.055) / 1.055) powr 2.4)"

definition relativeLuminance :: "rgb \<Rightarrow> real" where
  "relativeLuminance c =
     0.2126 * linearize (real (c_r c) / 255) + 0.7152 * linearize (real (c_g c) / 255)
       + 0.0722 * linearize (real (c_b c) / 255)"

definition contrastRatio :: "rgb \<Rightarrow> rgb \<Rightarrow> real" where
  "contrastRatio c1 c2 =
     (let l1 = relativeLuminance c1;
          l2 = relativeLuminance c2;
          lighter = max l1 l2;
          darker = min l1 l2
      in (lighter + 0.05) / (darker + 0.05))"

subsection \<open>Rule catalogue (\<^verbatim>\<open>WCAG_RULES\<close>)\<close>

datatype impact = Critical | Serious | Moderate | Minor

text \<open>
  The keys of the object literal \<^verbatim>\<open>WCAG_RULES\<close>. Every \<^verbatim>\<open>addIssue\<close>, \<^verbatim>\<open>addWarning\<close> and
  \<^verbatim>\<open>addPass\<close> call of the scanner passes one of these literals.
\<close>

datatype rule_key =
    Missing_alt | Empty_alt | Missing_lang | Missing_title | Missing_heading
  | Skipped_heading | Missing_form_label | Empty_link | Empty_button
  | Missing_viewport | No_skip_link | Missing_landmark | Low_contrast_text
  | Autoplay_media | Tabindex_positive | Missing_table_header | Meta_refresh
  | Inline_styles_text | Color_contrast_inline | Keyboard_trap
  | Missing_focus_style | Generic_link_text | Missing_keyboard_access

text \<open>
  A catalogue entry. The fields \<^verbatim>\<open>description\<close> and \<^verbatim>\<open>url\<close> are prose that no
  computation reads; they are left out.
\<close>

record rule =
  rid :: string
  rname :: string
  wcag :: string
  level :: string
  principle :: string
  impact :: impact

definition mkRule :: "string \<Rightarrow> string \<Rightarrow> string \<Rightarrow> string \<Rightarrow> string \<Rightarrow> impact \<Rightarrow> rule" where
  "mkRule i n w l p s =
     \<lparr>rid = i, rname = n, wcag = w, level = l, principle = p, impact = s\<rparr>"

fun WCAG_RULES :: "rule_key \<Rightarrow> rule" where
  "WCAG_RULES Missing_alt = mkRule ''missing-alt'' ''Images missing alt text''
     ''WCAG 2.1 SC 1.1.1'' ''A'' ''Perceivable'' Critical"
| "WCAG_RULES Empty_alt = mkRule ''empty-alt''
     ''Images with empty alt on non-decorative elements''
     ''WCAG 2.1 SC 1.1.1'' ''A'' ''Perceivable'' Serious"
| "WCAG_RULES Missing_lang = mkRule ''missing-lang'' ''Missing page language''
     ''WCAG 2.1 SC 3.1.1'' ''A'' ''Understandable'' Serious"
| "WCAG_RULES Missing_title = mkRule ''missing-title'' ''Missing page title''
     ''WCAG 2.1 SC 2.4.2'' ''A'' ''Operable'' Serious"
| "WCAG_RULES Missing_heading = mkRule ''missing-heading'' ''No heading structure''
     ''WCAG 2.1 SC 1.3.1'' ''A'' ''Perceivable'' Moderate"
| "WCAG_RULES Skipped_heading = mkRule ''skipped-heading'' ''Skipped heading levels''
     ''WCAG 2.1 SC 1.3.1'' ''A'' ''Perceivable'' Moderate"
| "WCAG_RULES Missing_form_label = mkRule ''missing-form-label''
     ''Form inputs without labels''
     ''WCAG 2.1 SC 1.3.1 / 4.1.2'' ''A'' ''Perceivable'' Critical"
| "WCAG_RULES Empty_link = mkRule ''empty-link'' ''Links with no accessible text''
     ''WCAG 2.1 SC 2.4.4'' ''A'' ''Operable'' Serious"
| "WCAG_RULES Empty_button = mkRule ''empty-button'' ''Buttons with no accessible text''
     ''WCAG 2.1 SC 4.1.2'' ''A'' ''Robust'' Critical"
| "WCAG_RULES Missing_viewport = mkRule ''missing-viewport'' ''Missing viewport meta tag''
     ''WCAG 2.1 SC 1.4.10'' ''AA'' ''Perceivable'' Moderate"
| "WCAG_RULES No_skip_link = mkRule ''no-skip-link'' ''No skip navigation link''
     ''WCAG 2.1 SC 2.4.1'' ''A'' ''Operable'' Moderate"
| "WCAG_RULES Missing_landmark = mkRule ''missing-landmark''
     ''No ARIA landmarks or semantic HTML5''
     ''WCAG 2.1 SC 1.3.1'' ''A'' ''Perceivable'' Moderate"
| "WCAG_RULES Low_contrast_text = mkRule ''low-contrast-text''
     ''Potential low contrast text''
     ''WCAG 2.1 SC 1.4.3'' ''AA'' ''Perceivable'' Serious"
| "WCAG_RULES Autoplay_media = mkRule ''autoplay-media'' ''Auto-playing media''
     ''WCAG 2.1 SC 1.4.2'' ''A'' ''Perceivable'' Serious"
| "WCAG_RULES Tabindex_positive = mkRule ''tabindex-positive'' ''Positive tabindex values''
     ''WCAG 2.1 SC 2.4.3'' ''A'' ''Operable'' Moderate"
| "WCAG_RULES Missing_table_header = mkRule ''missing-table-header''
     ''Data tables without headers''
     ''WCAG 2.1 SC 1.3.1'' ''A'' ''Perceivable'' Serious"
| "WCAG_RULES Meta_refresh = mkRule ''meta-refresh'' ''Meta refresh redirect''
     ''WCAG 2.1 SC 2.2.1'' ''A'' ''Operable'' Critical"
| "WCAG_RULES Inline_styles_text = mkRule ''inline-styles-text''
     ''Inline text styling (potential contrast issues)''
     ''WCAG 2.1 SC 1.4.3'' ''AA'' ''Perceivable'' Minor"
| "WCAG_RULES Color_contrast_inline = mkRule ''color-contrast-inline''
     ''Inline color contrast issues''
     ''WCAG 2.1 SC 1.4.3'' ''AA'' ''Perceivable'' Serious"
| "WCAG_RULES Keyboard_trap = mkRule ''keyboard-trap'' ''Potential keyboard trap''
     ''WCAG 2.1 SC 2.1.2'' ''A'' ''Operable'' Critical"
| "WCAG_RULES Missing_focus_style = mkRule ''missing-focus-style'' ''Focus styles suppressed''
     ''WCAG 2.1 SC 2.4.7'' ''AA'' ''Operable'' Serious"
| "WCAG_RULES Generic_link_text = mkRule ''generic-link-text''
     ''Generic or ambiguous link text''
     ''WCAG 2.1 SC 2.4.4'' ''A'' ''Operable'' Moderate"
| "WCAG_RULES Missing_keyboard_access = mkRule ''missing-keyboard-access''
     ''Non-interactive elements with click handlers''
     ''WCAG 2.1 SC 2.1.1'' ''A'' ''Operable'' Serious"

subsection \<open>Findings and the three result arrays of \<^verbatim>\<open>scanHTML\<close>\<close>

text \<open>
  An issue is the catalogue entry spread into a new object together with the first five
  offending excerpts, the true number of excerpts and a context string. An excerpt is a
  message string; the message of the contrast rule also prints the ratio with
  \<^verbatim>\<open>toFixed(1)\<close>, so its excerpt keeps the element text, the ratio and the two color
  expressions that the source formats into the string.
\<close>

datatype excerpt =
    Excerpt string
  | Contrast_excerpt string real string string

record issue = rule +
  elements :: "excerpt list"
  icount :: nat
  icontext :: string

record warning = rule +
  details :: string

record pass =
  pass_id :: string
  pass_name :: string
  pass_wcag :: string
  pass_level :: string

record scan_state =
  issues :: "issue list"
  warnings :: "warning list"
  passes :: "pass list"

definition addIssue :: "rule_key \<Rightarrow> excerpt list \<Rightarrow> scan_state \<Rightarrow> scan_state" where
  "addIssue ruleId els st =
     (let rule = WCAG_RULES ruleId
      in st\<lparr>issues := issues st @
           [rule.extend rule (issue.fields (take 5 els) (length els) '''')]\<rparr>)"

definition addWarning :: "rule_key \<Rightarrow> string \<Rightarrow> scan_state \<Rightarrow> scan_state" where
  "addWarning ruleId dets st =
     (let rule = WCAG_RULES ruleId
      in st\<lparr>warnings := warnings st @ [rule.extend rule (warning.fields dets)]\<rparr>)"

definition addPass :: "rule_key \<Rightarrow> scan_state \<Rightarrow> scan_state" where
  "addPass ruleId st =
     (let rule = WCAG_RULES ruleId
      in st\<lparr>passes := passes st @
           [\<lparr>pass_id = rid rule, pass_name = rname rule,
             pass_wcag = wcag rule, pass_level = level rule\<rparr>]\<rparr>)"

subsection \<open>The parsed document\<close>

text \<open>
  \<^verbatim>\<open>scanHTML\<close> reads the page through the selector queries of cheerio. The model starts
  behind them: a document is what each query returns, the matched elements in document
  order, each with the attributes, counts and text that the rule reads from it. An
  attribute that is not set is \<^const>\<open>None\<close>.
\<close>

datatype img = Img (img_alt: "string option") (img_src: "string option") (img_role: "string option")

datatype heading = Heading (h_level: nat) (h_text: string)

text \<open>
  An \<^verbatim>\<open>input\<close>, \<^verbatim>\<open>select\<close> or \<^verbatim>\<open>textarea\<close>: \<open>c_label_for\<close> is the number of
  \<^verbatim>\<open>label[for=id]\<close> elements, \<open>c_closest_label\<close> the length of \<^verbatim>\<open>closest('label')\<close>.
\<close>

datatype control = Control (c_tag: string) (c_type: "string option") (c_id: "string option")
  (c_aria_label: "string option") (c_aria_labelledby: "string option")
  (c_title: "string option") (c_name: "string option") (c_label_for: nat) (c_closest_label: nat)

text \<open>An \<^verbatim>\<open>a\<close> element: \<open>a_img_alt\<close> is the length of \<^verbatim>\<open>find('img[alt]')\<close>.\<close>

datatype link = Link (a_text: string) (a_href: "string option") (a_aria_label: "string option")
  (a_aria_labelledby: "string option") (a_title: "string option") (a_img_alt: nat)

datatype button = Button (b_tag: string) (b_text: string) (b_aria_label: "string option")
  (b_value: "string option") (b_title: "string option")

text \<open>
  An element with a \<^verbatim>\<open>tabindex\<close>: \<open>t_tabindex\<close> is \<^verbatim>\<open>parseInt\<close> of the attribute,
  \<^const>\<open>None\<close> for \<^verbatim>\<open>NaN\<close>.
\<close>

datatype tabbed = Tabbed (t_tag: string) (t_tabindex: "int option")

datatype table = Table (td_count: nat) (th_count: nat)

datatype styled = Styled (s_style: string) (s_text: string)

datatype keyed = Keyed (k_tag: string) (k_onkeydown: "string option") (k_onkeypress: "string option")

datatype focusable = Focusable (f_tag: string) (f_style: "string option")

datatype clickable = Clickable (o_tag: string) (o_role: "string option")
  (o_tabindex: "string option") (o_onkeydown: "string option") (o_onkeypress: "string option")
  (o_onkeyup: "string option") (o_text: string)

record document =
  imgs :: "img list"
  html_lang :: "string option"
  html_xml_lang :: "string option"
  title_text :: string
  headings :: "heading list"
  controls :: "control list"
  links :: "link list"
  buttons :: "button list"
  viewport_content :: "string option"
  role_navigation :: nat
  main_count :: nat
  nav_count :: nat
  header_count :: nat
  footer_count :: nat
  autoplay_media :: "string list"
  tabindexed :: "tabbed list"
  tables :: "table list"
  meta_refresh :: nat
  styled :: "styled list"
  keyed :: "keyed list"
  stylesheets :: "string list"
  focusables :: "focusable list"
  clickables :: "clickable list"
  form_count :: nat

subsection \<open>The rules of \<^verbatim>\<open>scanHTML\<close>\<close>

text \<open>
  Each numbered block of \<^verbatim>\<open>scanHTML\<close> is one function on the three result arrays. The
  arrow and the dash of the messages, which lie outside the 8-bit range, are written
  \<open>->\<close> and \<open>--\<close>.
\<close>

fun showNat :: "nat \<Rightarrow> string" where
  "showNat n =
     (if n < 10 then [char_of (48 + n)]
      else showNat (n div 10) @ [char_of (48 + n mod 10)])"

declare showNat.simps [simp del]

text \<open>1. Images without alt.\<close>

definition imgsNoAlt :: "document \<Rightarrow> excerpt list" where
  \<open>imgsNoAlt d =
     map (\<lambda>el. Excerpt (''<img src="'' @ take 80 (orElse (img_src el) []) @ ''">''))
       (filter (\<lambda>el. img_alt el = None) (imgs d))\<close>

definition imgsEmptyAlt :: "document \<Rightarrow> excerpt list" where
  \<open>imgsEmptyAlt d =
     map (\<lambda>el. Excerpt (''<img src="'' @ take 80 (orElse (img_src el) []) @ ''" alt="">''))
       (filter (\<lambda>el. case img_alt el of
                         None \<Rightarrow> False
                       | Some alt \<Rightarrow> trim alt = [] \<and> \<not> truthy (img_role el))
          (imgs d))\<close>

definition check_images :: "document \<Rightarrow> scan_state \<Rightarrow> scan_state" where
  "check_images d st =
     (let st1 = (if length (imgsNoAlt d) > 0 then addIssue Missing_alt (imgsNoAlt d) st
                 else addPass Missing_alt st)
      in if length (imgsEmptyAlt d) > 3
         then addWarning Empty_alt
                (showNat (length (imgsEmptyAlt d)) @ '' images with empty alt'') st1
         else st1)"

text \<open>2. Language.\<close>

definition lang_attr :: "document \<Rightarrow> string option" where
  "lang_attr d = (if truthy (html_lang d) then html_lang d else html_xml_lang d)"

definition check_lang :: "document \<Rightarrow> scan_state \<Rightarrow> scan_state" where
  "check_lang d st =
     (if \<not> truthy (lang_attr d) \<or> trim (orElse (lang_attr d) []) = []
      then addIssue Missing_lang [Excerpt ''<html>''] st
      else addPass Missing_lang st)"

text \<open>3. Title.\<close>

definition check_title :: "document \<Rightarrow> scan_state \<Rightarrow> scan_state" where
  "check_title d st =
     (let title = trim (title_text d)
      in if title = [] then addIssue Missing_title [Excerpt ''<title> element missing''] st
         else addPass Missing_title st)"

text \<open>4. Headings.\<close>

definition check_headings :: "document \<Rightarrow> scan_state \<Rightarrow> scan_state" where
  "check_headings d st =
     (if length (headings d) = 0
      then addIssue Missing_heading [Excerpt ''No heading elements found''] st
      else addPass Missing_heading st)"

text \<open>5. Skipped heading levels. The text kept with a heading is trimmed and cut to 60.\<close>

definition skipped :: "document \<Rightarrow> excerpt list" where
  \<open>skipped d =
     (let hs = headings d
      in map (\<lambda>i. Excerpt (''h'' @ showNat (h_level (hs ! (i - 1))) @ '' -> h''
                     @ showNat (h_level (hs ! i)) @ '' ("''
                     @ take 60 (trim (h_text (hs ! i))) @ ''")''))
           (filter (\<lambda>i. h_level (hs ! i) > h_level (hs ! (i - 1)) + 1) [1..<length hs]))\<close>

definition check_skipped :: "document \<Rightarrow> scan_state \<Rightarrow> scan_state" where
  "check_skipped d st =
     (if length (skipped d) > 0 then addIssue Skipped_heading (skipped d) st
      else if length (headings d) > 0 then addPass Skipped_heading st
      else st)"

text \<open>6. Form labels.\<close>

definition unlabeled :: "document \<Rightarrow> excerpt list" where
  \<open>unlabeled d =
     map (\<lambda>el. Excerpt (''<'' @ c_tag el @ '' name="''
                  @ (if truthy (c_name el) then orElse (c_name el) []
                     else if truthy (c_id el) then orElse (c_id el) []
                     else orElse (c_type el) ''text'')
                  @ ''">''))
       (filter (\<lambda>el.
            orElse (c_type el) ''text'' \<notin> set [''hidden'', ''submit'', ''button'', ''reset'', ''image'']
            \<and> (let ariaLabel = truthy (c_aria_label el) \<or> truthy (c_aria_labelledby el);
                    hasLabel = truthy (c_id el) \<and> c_label_for el > 0;
                    wrappedInLabel = c_closest_label el > 0
                in \<not> hasLabel \<and> \<not> wrappedInLabel \<and> \<not> ariaLabel \<and> \<not> truthy (c_title el)))
          (controls d))\<close>

definition check_form_labels :: "document \<Rightarrow> scan_state \<Rightarrow> scan_state" where
  "check_form_labels d st =
     (if length (unlabeled d) > 0 then addIssue Missing_form_label (unlabeled d) st
      else addPass Missing_form_label st)"

text \<open>7. Empty links.\<close>

definition emptyLinks :: "document \<Rightarrow> excerpt list" where
  \<open>emptyLinks d =
     map (\<lambda>el. Excerpt (''<a href="'' @ take 60 (orElse (a_href el) []) @ ''"> (no text)</a>''))
       (filter (\<lambda>el. trim (a_text el) = [] \<and> \<not> truthy (a_aria_label el)
                     \<and> \<not> truthy (a_aria_labelledby el) \<and> \<not> a_img_alt el > 0
                     \<and> \<not> truthy (a_title el))
          (links d))\<close>

definition check_empty_links :: "document \<Rightarrow> scan_state \<Rightarrow> scan_state" where
  "check_empty_links d st =
     (if length (emptyLinks d) > 0 then addIssue Empty_link (emptyLinks d) st
      else addPass Empty_link st)"

text \<open>8. Empty buttons.\<close>

definition emptyBtns :: "document \<Rightarrow> excerpt list" where
  "emptyBtns d =
     map (\<lambda>el. Excerpt (''<'' @ b_tag el @ ''> (no accessible name)''))
       (filter (\<lambda>el. trim (b_text el) = [] \<and> \<not> truthy (b_aria_label el)
                     \<and> \<not> truthy (b_value el) \<and> \<not> truthy (b_title el))
          (buttons d))"

definition check_empty_buttons :: "document \<Rightarrow> scan_state \<Rightarrow> scan_state" where
  "check_empty_buttons d st =
     (if length (emptyBtns d) > 0 then addIssue Empty_button (emptyBtns d) st
      else addPass Empty_button st)"

text \<open>9. Viewport.\<close>

definition check_viewport :: "document \<Rightarrow> scan_state \<Rightarrow> scan_state" where
  "check_viewport d st =
     (if \<not> truthy (viewport_content d)
      then addIssue Missing_viewport [Excerpt ''No viewport meta tag''] st
      else addPass Missing_viewport st)"

text \<open>10. Skip link: a warning or a pass, never an issue.\<close>

definition hasSkipLink :: "document \<Rightarrow> bool" where
  "hasSkipLink d =
     list_ex (\<lambda>el. let href = orElse (a_href el) []; text = toLowerCase (a_text el)
                   in startsWith href ''#''
                      \<and> (str_includes text ''skip'' \<or> str_includes text ''main content''
                           \<or> str_includes text ''jump''))
       (take 5 (links d))"

definition check_skip_link :: "document \<Rightarrow> scan_state \<Rightarrow> scan_state" where
  "check_skip_link d st =
     (if \<not> hasSkipLink d \<and> role_navigation d > 0
      then addWarning No_skip_link ''Navigation found but no skip link'' st
      else if hasSkipLink d then addPass No_skip_link st
      else st)"

text \<open>11. Landmarks.\<close>

definition landmarkCount :: "document \<Rightarrow> nat" where
  "landmarkCount d =
     length (filter (\<lambda>b. b)
       [main_count d > 0, nav_count d > 0, header_count d > 0, footer_count d > 0])"

definition check_landmarks :: "document \<Rightarrow> scan_state \<Rightarrow> scan_state" where
  "check_landmarks d st =
     (if landmarkCount d = 0
      then addIssue Missing_landmark [Excerpt ''No semantic landmarks found''] st
      else addPass Missing_landmark st)"

text \<open>12. Auto-playing media.\<close>

definition autoplayMedia :: "document \<Rightarrow> excerpt list" where
  "autoplayMedia d = map (\<lambda>tag. Excerpt (''<'' @ tag @ '' autoplay>'')) (autoplay_media d)"

definition check_autoplay :: "document \<Rightarrow> scan_state \<Rightarrow> scan_state" where
  "check_autoplay d st =
     (if length (autoplayMedia d) > 0 then addIssue Autoplay_media (autoplayMedia d) st
      else addPass Autoplay_media st)"

text \<open>13. Positive tabindex. \<^verbatim>\<open>NaN > 0\<close> is false.\<close>

definition posTab :: "document \<Rightarrow> excerpt list" where
  \<open>posTab d =
     concat (map (\<lambda>el. case t_tabindex el of
                          None \<Rightarrow> []
                        | Some val \<Rightarrow>
                            if val > 0
                            then [Excerpt (''<'' @ t_tag el @ '' tabindex="''
                                    @ showNat (nat val) @ ''">'')]
                            else [])
               (tabindexed d))\<close>

definition check_tabindex :: "document \<Rightarrow> scan_state \<Rightarrow> scan_state" where
  "check_tabindex d st =
     (if length (posTab d) > 0 then addIssue Tabindex_positive (posTab d) st
      else addPass Tabindex_positive st)"

text \<open>14. Table headers, on the tables with more than four data cells.\<close>

definition dataTables :: "document \<Rightarrow> table list" where
  "dataTables d = filter (\<lambda>el. td_count el > 4) (tables d)"

definition tablesNoHeader :: "document \<Rightarrow> excerpt list" where
  "tablesNoHeader d =
     map (\<lambda>el. Excerpt ''<table> without <th>'') (filter (\<lambda>el. th_count el = 0) (dataTables d))"

definition check_tables :: "document \<Rightarrow> scan_state \<Rightarrow> scan_state" where
  "check_tables d st =
     (if length (tablesNoHeader d) > 0 then addIssue Missing_table_header (tablesNoHeader d) st
      else if length (dataTables d) > 0 then addPass Missing_table_header st
      else st)"

text \<open>15. Meta refresh.\<close>

definition check_meta_refresh :: "document \<Rightarrow> scan_state \<Rightarrow> scan_state" where
  \<open>check_meta_refresh d st =
     (if meta_refresh d > 0
      then addIssue Meta_refresh [Excerpt ''<meta http-equiv="refresh">''] st
      else addPass Meta_refresh st)\<close>

text \<open>16. Inline color styles: a warning only. The test is \<^verbatim>\<open>/color\s*:/i\<close>.\<close>

definition re_color_any :: re where
  "re_color_any = Seq [Lit ''color'', Cls isSpace 0 None, Lit '':'']"

definition inlineColorCount :: "document \<Rightarrow> nat" where
  "inlineColorCount d = length (filter (\<lambda>el. test True re_color_any (s_style el)) (styled d))"

definition check_inline_color :: "document \<Rightarrow> scan_state \<Rightarrow> scan_state" where
  "check_inline_color d st =
     (if inlineColorCount d > 5
      then addWarning Inline_styles_text
             (showNat (inlineColorCount d) @ '' elements with inline color styles'') st
      else st)"

text \<open>
  17. Color contrast of inline styles. The two expressions are
  \<^verbatim>\<open>/(?:^|;)\s*color\s*:\s*([^;]+)/i\<close> and \<^verbatim>\<open>/background(?:-color)?\s*:\s*([^;]+)/i\<close>.
  \<open>contrastExcerpt\<close> is the body of the loop for one element: the message that it pushes,
  if any, or the error that \<^verbatim>\<open>parseColor\<close> raises, which ends the scan.
\<close>

definition re_color :: re where
  "re_color = Seq [Alt [Bol, Lit '';''], Cls isSpace 0 None, Lit ''color'', Cls isSpace 0 None,
     Lit '':'', Cls isSpace 0 None, Grp (Cls (\<lambda>c. c \<noteq> CHR '';'') 1 None)]"

definition re_background :: re where
  "re_background = Seq [Lit ''background'', Opt (Lit ''-color''), Cls isSpace 0 None,
     Lit '':'', Cls isSpace 0 None, Grp (Cls (\<lambda>c. c \<noteq> CHR '';'') 1 None)]"

definition contrastExcerpt :: "styled \<Rightarrow> js_error + excerpt option" where
  "contrastExcerpt el =
     (let style = s_style el
      in case (exec True re_color style, exec True re_background style) of
           (Some [colorMatch1], Some [bgMatch1]) \<Rightarrow>
             (case parseColor colorMatch1 of
                Inl err \<Rightarrow> Inl err
              | Inr fg \<Rightarrow>
                  (case parseColor bgMatch1 of
                     Inl err \<Rightarrow> Inl err
                   | Inr bg \<Rightarrow>
                       (case (fg, bg) of
                          (Some fgc, Some bgc) \<Rightarrow>
                            (let ratio = contrastRatio fgc bgc
                             in if ratio < 4.5
                                then Inr (Some (Contrast_excerpt
                                       (let text = take 40 (trim (s_text el))
                                        in if text \<noteq> [] then text else ''(element)'')
                                       ratio (trim colorMatch1) (trim bgMatch1)))
                                else Inr None)
                        | _ \<Rightarrow> Inr None)))
         | _ \<Rightarrow> Inr None)"

fun contrastIssues :: "styled list \<Rightarrow> js_error + excerpt list" where
  "contrastIssues [] = Inr []"
| "contrastIssues (el # els) =
     (case contrastExcerpt el of
        Inl err \<Rightarrow> Inl err
      | Inr found \<Rightarrow>
          (case contrastIssues els of
             Inl err \<Rightarrow> Inl err
           | Inr rest \<Rightarrow> Inr ((case found of None \<Rightarrow> [] | Some m \<Rightarrow> [m]) @ rest)))"

definition check_contrast :: "document \<Rightarrow> scan_state \<Rightarrow> js_error + scan_state" where
  "check_contrast d st =
     (case contrastIssues (styled d) of
        Inl err \<Rightarrow> Inl err
      | Inr found \<Rightarrow>
          Inr (if length found > 0 then addIssue Color_contrast_inline found st
               else addPass Color_contrast_inline st))"

text \<open>
  18. Keyboard trap: \<^verbatim>\<open>/preventDefault/i\<close> without \<^verbatim>\<open>/Tab|Escape|27|9/i\<close>.
\<close>

definition re_preventDefault :: re where
  "re_preventDefault = Lit ''preventDefault''"

definition re_escape_keys :: re where
  "re_escape_keys = Alt [Lit ''Tab'', Lit ''Escape'', Lit ''27'', Lit ''9'']"

definition trapElements :: "document \<Rightarrow> excerpt list" where
  "trapElements d =
     map (\<lambda>el. Excerpt (''<'' @ k_tag el @ ''> with aggressive key prevention''))
       (filter (\<lambda>el. let handler = orElse (k_onkeydown el) [] @ orElse (k_onkeypress el) []
                     in test True re_preventDefault handler \<and> \<not> test True re_escape_keys handler)
          (keyed d))"

definition check_keyboard_trap :: "document \<Rightarrow> scan_state \<Rightarrow> scan_state" where
  "check_keyboard_trap d st =
     (if length (trapElements d) > 0 then addIssue Keyboard_trap (trapElements d) st
      else addPass Keyboard_trap st)"

text \<open>
  19. Focus styles suppressed. The style sheets are searched with
  \<^verbatim>\<open>/[^}]*:focus\s*\{[^}]*outline\s*:\s*(none|0)[^}]*/gi\<close>, each match and each inline
  style is tested with \<^verbatim>\<open>/box-shadow|border/i\<close>, the inline styles also with
  \<^verbatim>\<open>/outline\s*:\s*(none|0)/i\<close>.
\<close>

definition re_focus_none :: re where
  "re_focus_none = Seq [Cls (\<lambda>c. c \<noteq> CHR ''}'') 0 None, Lit '':focus'', Cls isSpace 0 None,
     Lit ''{'', Cls (\<lambda>c. c \<noteq> CHR ''}'') 0 None, Lit ''outline'', Cls isSpace 0 None, Lit '':'',
     Cls isSpace 0 None, Grp (Alt [Lit ''none'', Lit ''0'']), Cls (\<lambda>c. c \<noteq> CHR ''}'') 0 None]"

definition re_replacement :: re where
  "re_replacement = Alt [Lit ''box-shadow'', Lit ''border'']"

definition re_outline_none :: re where
  "re_outline_none = Seq [Lit ''outline'', Cls isSpace 0 None, Lit '':'', Cls isSpace 0 None,
     Grp (Alt [Lit ''none'', Lit ''0''])]"

definition focusSuppressed :: "document \<Rightarrow> excerpt list" where
  "focusSuppressed d =
     (let stylesheetText = concat (stylesheets d);
          focusNoneMatches = matchAll True re_focus_none stylesheetText 0
      in map (\<lambda>m. Excerpt (take 60 (trim (takeWhile (\<lambda>c. c \<noteq> CHR ''{'') m))
                      @ '' -- outline removed without alternative''))
           (filter (\<lambda>m. \<not> test True re_replacement m) focusNoneMatches)
         @ map (\<lambda>el. Excerpt (''<'' @ f_tag el @ ''> inline outline:none''))
             (filter (\<lambda>el. let style = orElse (f_style el) []
                           in test True re_outline_none style \<and> \<not> test True re_replacement style)
                (focusables d)))"

definition check_focus :: "document \<Rightarrow> scan_state \<Rightarrow> scan_state" where
  "check_focus d st =
     (if length (focusSuppressed d) > 0 then addIssue Missing_focus_style (focusSuppressed d) st
      else addPass Missing_focus_style st)"

text \<open>20. Generic or ambiguous link text.\<close>

definition genericPhrases :: "string list" where
  "genericPhrases = [''click here'', ''here'', ''read more'', ''learn more'', ''more'', ''link'',
     ''this'', ''go'', ''details'', ''continue'']"

definition genericLinks :: "document \<Rightarrow> excerpt list" where
  \<open>genericLinks d =
     map (\<lambda>el. Excerpt (''"'' @ toLowerCase (trim (a_text el)) @ ''" -> ''
                  @ (let href = take 40 (orElse (a_href el) [])
                     in if href \<noteq> [] then href else ''(no href)'')))
       (filter (\<lambda>el. let text = toLowerCase (trim (a_text el))
                     in text \<noteq> [] \<and> text \<in> set genericPhrases)
          (links d))\<close>

definition check_generic_links :: "document \<Rightarrow> scan_state \<Rightarrow> scan_state" where
  "check_generic_links d st =
     (if length (genericLinks d) > 0 then addIssue Generic_link_text (genericLinks d) st
      else addPass Generic_link_text st)"

text \<open>21. Elements with a click handler and no keyboard access.\<close>

definition interactiveTags :: "string list" where
  "interactiveTags = [''a'', ''button'', ''input'', ''select'', ''textarea'', ''summary'']"

definition noKeyboard :: "document \<Rightarrow> excerpt list" where
  \<open>noKeyboard d =
     concat (map (\<lambda>el.
        let tag = toLowerCase (o_tag el); role = orElse (o_role el) []
        in if tag \<notin> set interactiveTags \<and> role \<noteq> ''button'' \<and> role \<noteq> ''link''
           then (let hasTabindex = (o_tabindex el \<noteq> None);
                     hasKeyHandler = (truthy (o_onkeydown el) \<or> truthy (o_onkeypress el)
                                       \<or> truthy (o_onkeyup el))
                 in if \<not> hasTabindex \<or> \<not> hasKeyHandler
                    then [Excerpt (''<'' @ tag @ ''> "'' @ take 40 (trim (o_text el))
                            @ ''" -- has onclick but ''
                            @ (if \<not> hasTabindex then ''no tabindex'' else ''no key handler''))]
                    else [])
           else [])
       (clickables d))\<close>

definition check_keyboard_access :: "document \<Rightarrow> scan_state \<Rightarrow> scan_state" where
  "check_keyboard_access d st =
     (if length (noKeyboard d) > 0 then addIssue Missing_keyboard_access (noKeyboard d) st
      else addPass Missing_keyboard_access st)"

subsection \<open>Score and compliance level\<close>

text \<open>
  \<^verbatim>\<open>Math.round\<close> rounds to the nearest integer, a tie towards \<open>+\<infinity>\<close>. The quotient and
  the product of the score are computed here in exact arithmetic. For the at most 20
  checks of one scan this agrees with IEEE double arithmetic: a tie \<open>k + 1/2\<close> of
  \<open>100 * p / t\<close> needs \<open>8\<close> to divide \<open>t\<close>, and then \<open>p / t\<close> and its product with 100 are
  binary fractions that a double holds exactly; every other value is at least
  \<open>1 / (2 * t)\<close> away from a tie.
\<close>

definition Math_round :: "real \<Rightarrow> int" where
  "Math_round x = \<lfloor>x + 1 / 2\<rfloor>"

definition calcScore :: "issue list \<Rightarrow> pass list \<Rightarrow> int" where
  "calcScore iss ps =
     (let totalChecks = length iss + length ps
      in if totalChecks > 0
         then Math_round ((real (length ps) / real totalChecks) * 100)
         else 0)"

datatype compliance = Compliant | Needs_improvement | Partially_compliant | Non_compliant

definition calcLevel :: "issue list \<Rightarrow> compliance" where
  "calcLevel iss =
     (let criticalIssues = length (filter (\<lambda>i. impact i = Critical) iss);
          seriousIssues = length (filter (\<lambda>i. impact i = Serious) iss)
      in if criticalIssues > 0 then Non_compliant
         else if seriousIssues > 1 then Partially_compliant
         else if length iss > 0 then Needs_improvement
         else Compliant)"

text \<open>
  The classification in the words of the specification, over the multiset of issue
  severities: the most severe applicable level wins.
\<close>

definition spec_level :: "impact multiset \<Rightarrow> compliance" where
  "spec_level M =
     (if count M Critical \<ge> 1 then Non_compliant
      else if count M Serious > 1 then Partially_compliant
      else if M \<noteq> {#} then Needs_improvement
      else Compliant)"

subsection \<open>\<^verbatim>\<open>scanHTML\<close>\<close>

record summary =
  totalChecks :: nat
  passed :: nat
  n_issues :: nat
  n_warnings :: nat
  critical :: nat
  serious :: nat
  moderate :: nat
  minor :: nat

record page_info =
  pi_title :: string
  pi_lang :: string
  headingCount :: nat
  imageCount :: nat
  linkCount :: nat
  formCount :: nat
  landmarks :: nat

text \<open>
  The object that \<^verbatim>\<open>scanHTML\<close> returns: the three arrays and what is derived from them.
  Time stamps are milliseconds since the epoch.
\<close>

record scan_result = scan_state +
  url :: string
  scannedAt :: int
  score :: int
  complianceLevel :: compliance
  summary :: summary
  pageInfo :: page_info

definition report :: "document \<Rightarrow> string \<Rightarrow> int \<Rightarrow> scan_state \<Rightarrow> scan_result" where
  "report d u now st =
     scan_state.extend st
       (scan_result.fields u now
          (calcScore (issues st) (passes st))
          (calcLevel (issues st))
          \<lparr>totalChecks = length (issues st) + length (passes st),
            passed = length (passes st),
            n_issues = length (issues st),
            n_warnings = length (warnings st),
            critical = length (filter (\<lambda>i. impact i = Critical) (issues st)),
            serious = length (filter (\<lambda>i. impact i = Serious) (issues st)),
            moderate = length (filter (\<lambda>i. impact i = Moderate) (issues st)),
            minor = length (filter (\<lambda>i. impact i = Minor) (issues st))\<rparr>
          \<lparr>pi_title = (let title = trim (title_text d)
                        in if title \<noteq> [] then title else ''(no title)''),
            pi_lang = orElse (lang_attr d) ''(not set)'',
            headingCount = length (headings d),
            imageCount = length (imgs d),
            linkCount = length (links d),
            formCount = form_count d,
            landmarks = landmarkCount d\<rparr>)"

text \<open>
  The blocks run in the order of the source. Only the contrast block can raise (through
  \<^verbatim>\<open>parseColor\<close>); the exception leaves \<^verbatim>\<open>scanHTML\<close>, which has no handler.
\<close>

definition scanHTML :: "document \<Rightarrow> string \<Rightarrow> int \<Rightarrow> js_error + scan_result" where
  "scanHTML d u now =
     (let st = \<lparr>issues = [], warnings = [], passes = []\<rparr>;
          st = check_images d st;
          st = check_lang d st;
          st = check_title d st;
          st = check_headings d st;
          st = check_skipped d st;
          st = check_form_labels d st;
          st = check_empty_links d st;
          st = check_empty_buttons d st;
          st = check_viewport d st;
          st = check_skip_link d st;
          st = check_landmarks d st;
          st = check_autoplay d st;
          st = check_tabindex d st;
          st = check_tables d st;
          st = check_meta_refresh d st;
          st = check_inline_color d st
      in case check_contrast d st of
           Inl err \<Rightarrow> Inl err
         | Inr st \<Rightarrow>
             (let st = check_keyboard_trap d st;
                  st = check_focus d st;
                  st = check_generic_links d st;
                  st = check_keyboard_access d st
              in Inr (report d u now st)))"

subsection \<open>Vocabulary of the claims about a scan\<close>

text \<open>
  The identifier of a catalogue rule, and the identifiers of the issues, passes and
  warnings of a state in the order in which they were pushed.
\<close>

definition rule_id :: "rule_key \<Rightarrow> string" where
  "rule_id k = rid (WCAG_RULES k)"

definition issue_ids :: "scan_state \<Rightarrow> string list" where
  "issue_ids st = map rid (issues st)"

definition pass_ids :: "scan_state \<Rightarrow> string list" where
  "pass_ids st = map pass_id (passes st)"

definition warning_ids :: "scan_state \<Rightarrow> string list" where
  "warning_ids st = map rid (warnings st)"

text \<open>Every issue of a state stands for at least one violation.\<close>

definition counted :: "scan_state \<Rightarrow> bool" where
  "counted st = list_all (\<lambda>i. 0 < icount i \<and> elements i \<noteq> []) (issues st)"

text \<open>
  When a rule is applicable to a document, that is, when its block of \<^verbatim>\<open>scanHTML\<close> ends
  in an issue or a pass: the heading-skip rule needs a heading, the table-header rule a
  data table, and the skip-link rule, which has no issue branch, passes when a skip link
  is found. Three catalogue rules have no issue and no pass branch at all:
  \<^verbatim>\<open>empty-alt\<close> and \<^verbatim>\<open>inline-styles-text\<close> only warn, \<^verbatim>\<open>low-contrast-text\<close> is not evaluated.
  Every other rule is applicable to every document.
\<close>

definition applicable :: "document \<Rightarrow> rule_key \<Rightarrow> bool" where
  "applicable d k =
     (case k of
        Skipped_heading \<Rightarrow> headings d \<noteq> []
      | Missing_table_header \<Rightarrow> dataTables d \<noteq> []
      | No_skip_link \<Rightarrow> hasSkipLink d
      | Empty_alt \<Rightarrow> False
      | Low_contrast_text \<Rightarrow> False
      | Inline_styles_text \<Rightarrow> False
      | _ \<Rightarrow> True)"

text \<open>The state of \<^verbatim>\<open>scanHTML\<close> before the contrast block, and the blocks after it.\<close>

definition before_contrast :: "document \<Rightarrow> scan_state" where
  "before_contrast d =
     check_inline_color d (check_meta_refresh d (check_tables d (check_tabindex d
       (check_autoplay d (check_landmarks d (check_skip_link d (check_viewport d
         (check_empty_buttons d (check_empty_links d (check_form_labels d (check_skipped d
           (check_headings d (check_title d (check_lang d (check_images d
             \<lparr>issues = [], warnings = [], passes = []\<rparr>)))))))))))))))"

definition after_contrast :: "document \<Rightarrow> scan_state \<Rightarrow> scan_state" where
  "after_contrast d st =
     check_keyboard_access d (check_generic_links d (check_focus d (check_keyboard_trap d st)))"

subsection \<open>Page fetcher (\<^verbatim>\<open>fetchHTML\<close>)\<close>

text \<open>
  The promise of \<^verbatim>\<open>fetchHTML\<close> settles once: the result is its first resolution or
  rejection. The rejections are the cases of \<open>fetch_error\<close>; the time-out value only
  appears in a message and is left out.
\<close>

datatype fetch_error =
    Invalid_URL string
  | Request_timed_out
  | Too_many_redirects
  | Invalid_redirect_URL
  | HTTP nat
  | Response_too_large
  | Connection_timed_out
  | Stream_error string
  | Get_threw string

text \<open>
  What the network does with one request. \<^verbatim>\<open>protocol.get\<close> either throws at once (it
  does so for a URL whose scheme is not the scheme of the module chosen from the first
  URL), or the timer of \<^verbatim>\<open>doFetch\<close> fires first, or the request emits \<^verbatim>\<open>error\<close> or
  \<^verbatim>\<open>timeout\<close>, or a response arrives: a status code, the \<^verbatim>\<open>location\<close> header, and the
  decoded chunks of the body followed by \<^verbatim>\<open>end\<close>, by an \<^verbatim>\<open>error\<close> event or by the timer.
\<close>

datatype ending = End | Res_error string | Timer

record response =
  statusCode :: nat
  location :: "string option"
  chunks :: "string list"
  ending :: ending

datatype net_event =
    Get_throws string
  | Timer_fires
  | Req_error string
  | Req_timeout
  | Response response

text \<open>
  The environment of a fetch: \<open>parseURL s\<close> is \<^verbatim>\<open>new URL(s).href\<close> and \<open>resolveURL l b\<close> is
  \<^verbatim>\<open>new URL(l, b).href\<close>, both \<^const>\<open>None\<close> when the constructor throws; \<open>get\<close> answers a
  request.
\<close>

record net =
  parseURL :: "string \<Rightarrow> string option"
  resolveURL :: "string \<Rightarrow> string \<Rightarrow> string option"
  get :: "string \<Rightarrow> net_event"

definition re_scheme :: re where
  "re_scheme = Seq [Bol, Lit ''http'', Opt (Lit ''s''), Lit ''://'']"

text \<open>
  The line \<^verbatim>\<open>if (!s.match(/^https?:\/\//i)) s = 'https://' + s\<close>, which the fetcher and the
  routes share.
\<close>

definition withScheme :: "string \<Rightarrow> string" where
  "withScheme s = (if \<not> test True re_scheme s then ''https://'' @ s else s)"

text \<open>The test for a redirect: a 3xx status with a non-empty \<^verbatim>\<open>location\<close> header.\<close>

definition isRedirect :: "response \<Rightarrow> bool" where
  "isRedirect res = (statusCode res \<ge> 300 \<and> statusCode res < 400 \<and> truthy (location res))"

text \<open>The \<^verbatim>\<open>data\<close> handler and the events that end the body.\<close>

fun receive :: "string \<Rightarrow> string list \<Rightarrow> ending \<Rightarrow> fetch_error + string" where
  "receive data [] fin =
     (case fin of
        End \<Rightarrow> Inr data
      | Res_error e \<Rightarrow> Inl (Stream_error e)
      | Timer \<Rightarrow> Inl Request_timed_out)"
| "receive data (chunk # rest) fin =
     (let data = data @ chunk
      in if length data > 5 * 1024 * 1024 then Inl Response_too_large
         else receive data rest fin)"

text \<open>
  \<^verbatim>\<open>doFetch\<close>, with the counter \<^verbatim>\<open>redirects\<close> of the enclosing function as an argument.
  The \<^verbatim>\<open>try\<close> around the redirect catches a failing \<^verbatim>\<open>new URL\<close> and also an exception
  that the nested call of \<^verbatim>\<open>doFetch\<close> throws before it returns, which is the one of
  \<^verbatim>\<open>protocol.get\<close>.
\<close>

function doFetch :: "net \<Rightarrow> nat \<Rightarrow> string \<Rightarrow> fetch_error + string" where
  "doFetch n redirects fetchUrl =
     (case get n fetchUrl of
        Get_throws e \<Rightarrow> Inl (Get_threw e)
      | Timer_fires \<Rightarrow> Inl Request_timed_out
      | Req_error e \<Rightarrow> Inl (Stream_error e)
      | Req_timeout \<Rightarrow> Inl Connection_timed_out
      | Response res \<Rightarrow>
          if isRedirect res
          then (if redirects + 1 > 5 then Inl Too_many_redirects
                else case resolveURL n (orElse (location res) []) fetchUrl of
                       None \<Rightarrow> Inl Invalid_redirect_URL
                     | Some href \<Rightarrow>
                         (case doFetch n (redirects + 1) href of
                            Inl (Get_threw e) \<Rightarrow> Inl Invalid_redirect_URL
                          | r \<Rightarrow> r))
          else if statusCode res \<noteq> 200 then Inl (HTTP (statusCode res))
          else receive [] (chunks res) (ending res))"
  by pat_completeness auto
termination
  by (relation "measure (\<lambda>(n, redirects, fetchUrl). 6 - redirects)") auto

declare doFetch.simps [simp del]

definition fetchHTML :: "net \<Rightarrow> string \<Rightarrow> fetch_error + string" where
  "fetchHTML n urlStr0 =
     (let urlStr = withScheme urlStr0
      in case parseURL n urlStr of
           None \<Rightarrow> Inl (Invalid_URL urlStr)
         | Some href \<Rightarrow> doFetch n 0 href)"

text \<open>
  A redirect chain: from \<open>u\<close> the fetcher is sent through the URLs \<open>vs\<close>, one hop each.
  Every hop is a redirect response whose target resolves to the next URL, for which
  \<^verbatim>\<open>protocol.get\<close> does not throw.
\<close>

definition throws :: "net_event \<Rightarrow> bool" where
  "throws ev = (case ev of Get_throws e \<Rightarrow> True | _ \<Rightarrow> False)"

fun redirect_chain :: "net \<Rightarrow> string \<Rightarrow> string list \<Rightarrow> bool" where
  "redirect_chain n u [] = True"
| "redirect_chain n u (v # vs) =
     (case get n u of
        Response res \<Rightarrow>
          isRedirect res \<and> resolveURL n (orElse (location res) []) u = Some v
          \<and> \<not> throws (get n v) \<and> redirect_chain n v vs
      | _ \<Rightarrow> False)"

text \<open>
  The timer of \<^verbatim>\<open>doFetch\<close>. Every handler clears it before the promise is settled, and a
  redirect clears it before the nested call sets its own; but when \<^verbatim>\<open>protocol.get\<close> throws,
  the timer set on the line before stays armed and \<^verbatim>\<open>req\<close> is never initialised. Its
  callback, 15 seconds later, begins with \<^verbatim>\<open>req.destroy()\<close>, which then raises a
  \<^verbatim>\<open>ReferenceError\<close> outside every handler of the program (there is none for
  \<^verbatim>\<open>uncaughtException\<close>), and that ends the process. \<open>staleTimer\<close> follows \<^verbatim>\<open>doFetch\<close> and says
  whether the fetch ends in this way; \<open>leavesTimer\<close> does so for \<^verbatim>\<open>fetchHTML\<close>.
\<close>

function staleTimer :: "net \<Rightarrow> nat \<Rightarrow> string \<Rightarrow> bool" where
  "staleTimer n redirects fetchUrl =
     (case get n fetchUrl of
        Get_throws e \<Rightarrow> True
      | Timer_fires \<Rightarrow> False
      | Req_error e \<Rightarrow> False
      | Req_timeout \<Rightarrow> False
      | Response res \<Rightarrow>
          if isRedirect res
          then (if redirects + 1 > 5 then False
                else case resolveURL n (orElse (location res) []) fetchUrl of
                       None \<Rightarrow> False
                     | Some href \<Rightarrow> staleTimer n (redirects + 1) href)
          else False)"
  by pat_completeness auto
termination
  by (relation "measure (\<lambda>(n, redirects, fetchUrl). 6 - redirects)") auto

declare staleTimer.simps [simp del]

definition leavesTimer :: "net \<Rightarrow> string \<Rightarrow> bool" where
  "leavesTimer n urlStr0 =
     (let urlStr = withScheme urlStr0
      in case parseURL n urlStr of
           None \<Rightarrow> False
         | Some href \<Rightarrow> staleTimer n 0 href)"


subsection \<open>Scan store and the history diff\<close>

text \<open>A stored scan: the result of \<^verbatim>\<open>scanHTML\<close> spread into an object with an \<^verbatim>\<open>id\<close>.\<close>

record scan_record = scan_result +
  sid :: string

text \<open>
  \<^verbatim>\<open>saveHistory\<close> keeps the last 1000 records and then writes the file. This is the first
  step; the write, which can raise, is a step of its own in the scheduler below.
\<close>

definition saveHistory :: "scan_record list \<Rightarrow> scan_record list" where
  "saveHistory scanHistory =
     (if length scanHistory > 1000 then drop (length scanHistory - 1000) scanHistory
      else scanHistory)"

text \<open>
  A JavaScript \<^verbatim>\<open>Set\<close> built from an array: the distinct values in the order of their
  first insertion, which is the order in which the spread \<^verbatim>\<open>[...set]\<close> lists them.
\<close>

definition Set_add :: "'a list \<Rightarrow> 'a \<Rightarrow> 'a list" where
  "Set_add s x = (if x \<in> set s then s else s @ [x])"

definition new_Set :: "'a list \<Rightarrow> 'a list" where
  "new_Set xs = foldl Set_add [] xs"

definition Set_has :: "'a list \<Rightarrow> 'a \<Rightarrow> bool" where
  "Set_has s x = (x \<in> set s)"

text \<open>
  The \<^verbatim>\<open>diff\<close> object of a history entry; the two lists of rule names, looked up for
  display from the identifiers, are left out.
\<close>

record diff =
  scoreChange :: int
  issuesFixed :: "string list"
  issuesFixedCount :: nat
  newIssues :: "string list"
  newIssuesCount :: nat

record entry =
  e_id :: string
  e_date :: int
  e_score :: int
  e_complianceLevel :: compliance
  issueCount :: nat
  e_critical :: nat
  e_serious :: nat
  e_passed :: nat
  issueIds :: "string list"
  e_diff :: "diff option"

definition diffOf :: "scan_record \<Rightarrow> scan_record \<Rightarrow> diff" where
  "diffOf prev scan =
     (let prevIssueIds = new_Set (map rid (issues prev));
          currIssueIds = new_Set (map rid (issues scan));
          fixed = filter (\<lambda>i. \<not> Set_has currIssueIds i) prevIssueIds;
          newIss = filter (\<lambda>i. \<not> Set_has prevIssueIds i) currIssueIds
      in \<lparr>scoreChange = score scan - score prev,
          issuesFixed = fixed,
          issuesFixedCount = length fixed,
          newIssues = newIss,
          newIssuesCount = length newIss\<rparr>)"

text \<open>The callback of \<^verbatim>\<open>urlScans.map((scan, i) => ...)\<close> and the map itself.\<close>

definition historyEntry :: "scan_record list \<Rightarrow> nat \<Rightarrow> entry" where
  "historyEntry urlScans i =
     (let scan = urlScans ! i
      in \<lparr>e_id = sid scan,
          e_date = scannedAt scan,
          e_score = score scan,
          e_complianceLevel = complianceLevel scan,
          issueCount = n_issues (summary scan),
          e_critical = critical (summary scan),
          e_serious = serious (summary scan),
          e_passed = passed (summary scan),
          issueIds = map rid (issues scan),
          e_diff = (if i > 0 then Some (diffOf (urlScans ! (i - 1)) scan) else None)\<rparr>)"

definition history :: "scan_record list \<Rightarrow> entry list" where
  "history urlScans = map (historyEntry urlScans) [0..<length urlScans]"

text \<open>
  The route \<^verbatim>\<open>/api/scan-history/:encodedUrl\<close>, from the decoded parameter on.
  \<open>hostname s\<close> is \<^verbatim>\<open>new URL(s).hostname\<close>, \<^const>\<open>None\<close> when the constructor throws.
\<close>

datatype history_reply =
    Invalid_target
  | No_history
  | History "entry list" "diff option"

definition scan_history :: "(string \<Rightarrow> string option) \<Rightarrow> scan_record list \<Rightarrow> string \<Rightarrow> history_reply" where
  "scan_history hostname scanHistory param =
     (let targetUrl = withScheme (trim param)
      in case hostname targetUrl of
           None \<Rightarrow> Invalid_target
         | Some domain \<Rightarrow>
             (let urlScans = filter (\<lambda>s. hostname (url s) = Some domain) scanHistory
              in if length urlScans = 0 then No_history
                 else let h = history urlScans
                      in History h (if length h \<ge> 2 then e_diff (h ! (length h - 1)) else None)))"

subsection \<open>Monitors\<close>

record monitor =
  mon_id :: string
  mon_url :: string
  mon_email :: string
  mon_frequency :: string
  mon_active :: bool
  mon_createdAt :: int
  mon_updatedAt :: "int option"
  mon_lastScanAt :: "int option"
  mon_lastScore :: "int option"
  mon_nextScanAt :: "int option"

definition re_email :: re where
  "re_email = Seq [Bol, Cls (\<lambda>c. \<not> isSpace c \<and> c \<noteq> CHR ''@'') 1 None, Lit ''@'',
     Cls (\<lambda>c. \<not> isSpace c \<and> c \<noteq> CHR ''@'') 1 None, Lit ''.'',
     Cls (\<lambda>c. \<not> isSpace c \<and> c \<noteq> CHR ''@'') 1 None, Eol]"

text \<open>The interval of a frequency, in milliseconds.\<close>

definition intervalMs :: "string \<Rightarrow> int" where
  "intervalMs frequency =
     (if frequency = ''daily'' then 24 * 60 * 60 * 1000
      else if frequency = ''monthly'' then 30 * 24 * 60 * 60 * 1000
      else 7 * 24 * 60 * 60 * 1000)"

text \<open>\<^verbatim>\<open>monitors.find(p)\<close> as the index of the first element that satisfies \<open>p\<close>.\<close>

fun findIndex :: "('a \<Rightarrow> bool) \<Rightarrow> 'a list \<Rightarrow> nat option" where
  "findIndex p [] = None"
| "findIndex p (x # xs) = (if p x then Some 0 else map_option Suc (findIndex p xs))"

datatype monitor_reply =
    Bad_request string
  | Monitor_updated monitor
  | Monitor_registered monitor
  | Not_found
  | Monitor_deactivated

text \<open>
  \<^verbatim>\<open>POST /api/monitor\<close>. The body fields are strings or absent. \<open>validURL s\<close> says that
  \<^verbatim>\<open>new URL(s)\<close> does not throw, \<open>uuid\<close> is the identifier that \<^verbatim>\<open>uuidv4()\<close> draws and
  \<open>now\<close> the time of the request.
\<close>

definition post_monitor ::
  "(string \<Rightarrow> bool) \<Rightarrow> string \<Rightarrow> int \<Rightarrow> string option \<Rightarrow> string option \<Rightarrow> string option
     \<Rightarrow> monitor list \<Rightarrow> monitor_reply \<times> monitor list" where
  "post_monitor validURL uuid now url_field email_field frequency monitors =
     (if \<not> truthy url_field \<or> \<not> truthy email_field
      then (Bad_request ''URL and email are required'', monitors)
      else
        let url = orElse url_field []; email = orElse email_field []
        in if \<not> test False re_email email
           then (Bad_request ''Invalid email address'', monitors)
           else
             let normalizedUrl = withScheme (trim url)
             in if \<not> validURL normalizedUrl then (Bad_request ''Invalid URL'', monitors)
                else
                  case findIndex (\<lambda>m. mon_url m = normalizedUrl \<and> mon_email m = email) monitors of
                    Some i \<Rightarrow>
                      (let existing = (monitors ! i)
                             \<lparr>mon_frequency := orElse frequency ''weekly'',
                              mon_active := True,
                              mon_updatedAt := Some now\<rparr>
                       in (Monitor_updated existing, monitors[i := existing]))
                  | None \<Rightarrow>
                      (let monitor =
                             \<lparr>mon_id = uuid,
                              mon_url = normalizedUrl,
                              mon_email = toLowerCase (trim email),
                              mon_frequency = orElse frequency ''weekly'',
                              mon_active = True,
                              mon_createdAt = now,
                              mon_updatedAt = None,
                              mon_lastScanAt = None,
                              mon_lastScore = None,
                              mon_nextScanAt = Some (now +
                                (if frequency = Some ''daily'' then 24 * 60 * 60 * 1000
                                 else if frequency = Some ''monthly'' then 30 * 24 * 60 * 60 * 1000
                                 else 7 * 24 * 60 * 60 * 1000))\<rparr>
                       in (Monitor_registered monitor, monitors @ [monitor])))"

text \<open>\<^verbatim>\<open>DELETE /api/monitor/:id\<close>.\<close>

definition delete_monitor :: "string \<Rightarrow> monitor list \<Rightarrow> monitor_reply \<times> monitor list" where
  "delete_monitor ident monitors =
     (case findIndex (\<lambda>m. mon_id m = ident) monitors of
        None \<Rightarrow> (Not_found, monitors)
      | Some i \<Rightarrow> (Monitor_deactivated, monitors[i := (monitors ! i)\<lparr>mon_active := False\<rparr>]))"

text \<open>
  The two files that the scheduler writes with \<^verbatim>\<open>fs.writeFileSync\<close>: \<^verbatim>\<open>saveHistory\<close> writes
  the first and \<^verbatim>\<open>saveMonitors\<close> the second.
\<close>

datatype data_file = History_file | Monitors_file

text \<open>
  The world of one run of \<^verbatim>\<open>runScheduledScans\<close>, by the position of the monitor in the
  array: the network while that monitor is fetched; the document that \<^verbatim>\<open>cheerio.load\<close>
  builds, as the results of the queries of \<^verbatim>\<open>scanHTML\<close>, or the message of the exception
  when one of the queries raises (the selector \<^verbatim>\<open>label[for="..."]\<close> is built from the \<^verbatim>\<open>id\<close>
  of a form control and does not parse when the \<^verbatim>\<open>id\<close> contains a quote); the identifier
  drawn for the record; the time at which \<^verbatim>\<open>scanHTML\<close> reads the clock; and what
  \<^verbatim>\<open>fs.writeFileSync\<close> does for each of the two files, \<^const>\<open>None\<close> when it returns and the
  message of the exception when it raises. Handlers that run while the loop awaits a
  fetch are not modelled.
\<close>

record world =
  net_at :: "nat \<Rightarrow> net"
  load :: "string \<Rightarrow> string + document"
  uuid_at :: "nat \<Rightarrow> string"
  clock_at :: "nat \<Rightarrow> int"
  writeFileSync :: "nat \<Rightarrow> data_file \<Rightarrow> string option"

text \<open>What the \<^verbatim>\<open>try\<close> block of the loop can throw.\<close>

datatype scan_failure =
    Fetch_failed fetch_error
  | Query_failed string
  | Scan_failed js_error
  | Write_failed data_file string

text \<open>
  The first two statements of the \<^verbatim>\<open>try\<close> block, which change nothing: the fetch and the
  scan of the page.
\<close>

definition tryScan :: "world \<Rightarrow> nat \<Rightarrow> monitor \<Rightarrow> scan_failure + scan_result" where
  "tryScan w i monitor =
     (case fetchHTML (net_at w i) (mon_url monitor) of
        Inl err \<Rightarrow> Inl (Fetch_failed err)
      | Inr html \<Rightarrow>
          (case load w html of
             Inl msg \<Rightarrow> Inl (Query_failed msg)
           | Inr doc \<Rightarrow>
               (case scanHTML doc (mon_url monitor) (clock_at w i) of
                  Inl err \<Rightarrow> Inl (Scan_failed err)
                | Inr result \<Rightarrow> Inr result)))"

text \<open>
  The \<^verbatim>\<open>try\<close> block for the monitor at position \<open>i\<close>: what it throws, if it throws, and the
  monitor and the history as it leaves them. The record is pushed, and the history cut
  to its last 1000 records, before the history file is written; the three fields of the
  monitor are assigned before the monitors file is written. An exception of either write
  therefore leaves the changes made before it in place.
\<close>

definition tryBlock ::
  "world \<Rightarrow> int \<Rightarrow> nat \<Rightarrow> monitor \<Rightarrow> scan_record list
     \<Rightarrow> scan_failure option \<times> monitor \<times> scan_record list" where
  "tryBlock w now i monitor scanHistory =
     (case tryScan w i monitor of
        Inl err \<Rightarrow> (Some err, monitor, scanHistory)
      | Inr result \<Rightarrow>
          (let scanRecord = scan_result.extend result (scan_record.fields (uuid_at w i));
               scanHistory = saveHistory (scanHistory @ [scanRecord])
           in case writeFileSync w i History_file of
                Some msg \<Rightarrow> (Some (Write_failed History_file msg), monitor, scanHistory)
              | None \<Rightarrow>
                  (let intervalMs = intervalMs (mon_frequency monitor);
                       monitor = monitor\<lparr>mon_lastScanAt := Some now,
                                         mon_lastScore := Some (score result),
                                         mon_nextScanAt := Some (now + intervalMs)\<rparr>
                   in case writeFileSync w i Monitors_file of
                        Some msg \<Rightarrow> (Some (Write_failed Monitors_file msg), monitor, scanHistory)
                      | None \<Rightarrow> (None, monitor, scanHistory))))"

text \<open>
  The body of the loop for the monitor at position \<open>i\<close>. Both \<^verbatim>\<open>continue\<close> statements leave
  the monitor and the history as they are; the \<^verbatim>\<open>catch\<close> block only logs, so that the loop
  goes on with the state in which the \<^verbatim>\<open>try\<close> block ended, thrown or not.
\<close>

definition scanMonitor ::
  "world \<Rightarrow> int \<Rightarrow> nat \<Rightarrow> monitor \<Rightarrow> scan_record list \<Rightarrow> monitor \<times> scan_record list" where
  "scanMonitor w now i monitor scanHistory =
     (if \<not> mon_active monitor then (monitor, scanHistory)
      else if (case mon_nextScanAt monitor of None \<Rightarrow> False | Some t \<Rightarrow> t > now)
      then (monitor, scanHistory)
      else snd (tryBlock w now i monitor scanHistory))"

fun scanLoop ::
  "world \<Rightarrow> int \<Rightarrow> nat \<Rightarrow> monitor list \<Rightarrow> scan_record list \<Rightarrow> monitor list \<times> scan_record list" where
  "scanLoop w now i [] scanHistory = ([], scanHistory)"
| "scanLoop w now i (monitor # rest) scanHistory =
     (case scanMonitor w now i monitor scanHistory of
        (monitor', scanHistory') \<Rightarrow>
          (case scanLoop w now (Suc i) rest scanHistory' of
             (rest', scanHistory'') \<Rightarrow> (monitor' # rest', scanHistory'')))"

definition runScheduledScans ::
  "world \<Rightarrow> int \<Rightarrow> monitor list \<Rightarrow> scan_record list \<Rightarrow> monitor list \<times> scan_record list" where
  "runScheduledScans w now monitors scanHistory = scanLoop w now 0 monitors scanHistory"

text \<open>The two tests that make the loop skip a monitor.\<close>

definition due :: "int \<Rightarrow> monitor \<Rightarrow> bool" where
  "due now monitor =
     (mon_active monitor \<and> \<not> (case mon_nextScanAt monitor of None \<Rightarrow> False | Some t \<Rightarrow> t > now))"

text \<open>
  The loop above is the loop of a process that keeps running. A fetch that
  \<^const>\<open>leavesTimer\<close> ends the process 15 seconds later, whatever the loop is doing then,
  and with it the hourly ticks: \<open>processExits\<close> says that the fetch of some monitor that
  the run scans does so.
\<close>

definition processExits :: "world \<Rightarrow> int \<Rightarrow> monitor list \<Rightarrow> bool" where
  "processExits w now monitors =
     list_ex (\<lambda>i. due now (monitors ! i) \<and> leavesTimer (net_at w i) (mon_url (monitors ! i)))
       [0..<length monitors]"


subsection \<open>Example data\<close>

text \<open>Concrete inputs at which the theorems below are evaluated.\<close>

definition empty_document :: document where
  "empty_document =
     \<lparr>imgs = [], html_lang = None, html_xml_lang = None, title_text = [],
      headings = [], controls = [], links = [], buttons = [],
      viewport_content = None, role_navigation = 0, main_count = 0, nav_count = 0,
      header_count = 0, footer_count = 0, autoplay_media = [], tabindexed = [],
      tables = [], meta_refresh = 0, styled = [], keyed = [], stylesheets = [],
      focusables = [], clickables = [], form_count = 0\<rparr>"

text \<open>A stored scan whose only issue is \<^verbatim>\<open>missing-alt\<close>, with the given excerpts.\<close>

definition example_record :: "string \<Rightarrow> int \<Rightarrow> excerpt list \<Rightarrow> scan_record" where
  "example_record ident now els =
     scan_result.extend
       (report empty_document ''https://example.com'' now
          (addIssue Missing_alt els \<lparr>issues = [], warnings = [], passes = []\<rparr>))
       (scan_record.fields ident)"


definition status_net :: "nat \<Rightarrow> net" where
  "status_net code =
     \<lparr>parseURL = (\<lambda>s. Some s),
      resolveURL = (\<lambda>l b. Some l),
      get = (\<lambda>u. Response \<lparr>statusCode = code, location = None,
                              chunks = [''<html>'', ''</html>''], ending = End\<rparr>)\<rparr>"

text \<open>
  A world in which the fetch for the monitor at position 0 is answered with status 500
  and every other fetch with an empty page, in which the disk is full when the history
  is written for the monitor at position 2, and in which the monitors file cannot be
  written for the monitor at position 3.
\<close>

definition example_world :: world where
  "example_world =
     \<lparr>net_at = (\<lambda>i. status_net (if i = 0 then 500 else 200)),
      load = (\<lambda>html. Inr empty_document),
      uuid_at = (\<lambda>i. showNat i),
      clock_at = (\<lambda>i. 1000 + int i),
      writeFileSync = (\<lambda>i f. if i = 2 \<and> f = History_file then Some ''ENOSPC''
                             else if i = 3 \<and> f = Monitors_file then Some ''EACCES''
                             else None)\<rparr>"

text \<open>
  A world in which every fetch is answered with an empty page and the monitors file
  cannot be written.
\<close>

definition read_only_world :: world where
  "read_only_world =
     \<lparr>net_at = (\<lambda>i. status_net 200),
      load = (\<lambda>html. Inr empty_document),
      uuid_at = (\<lambda>i. showNat i),
      clock_at = (\<lambda>i. 1000 + int i),
      writeFileSync = (\<lambda>i f. if f = Monitors_file then Some ''EACCES'' else None)\<rparr>"

text \<open>
  A network that redirects \<^verbatim>\<open>https://a\<close> to \<^verbatim>\<open>http://a\<close>, for which the \<^verbatim>\<open>get\<close> of the
  \<^verbatim>\<open>https\<close> module throws.
\<close>

definition cross_scheme_net :: net where
  "cross_scheme_net =
     \<lparr>parseURL = (\<lambda>s. Some s),
      resolveURL = (\<lambda>l b. Some l),
      get = (\<lambda>u. if u = ''https://a''
                  then Response \<lparr>statusCode = 301, location = Some ''http://a'',
                                 chunks = [], ending = End\<rparr>
                  else Get_throws ''ERR_INVALID_PROTOCOL'')\<rparr>"

definition example_monitor :: "string \<Rightarrow> string \<Rightarrow> monitor" where
  "example_monitor ident freq =
     \<lparr>mon_id = ident, mon_url = ''https://a'', mon_email = ''ada@example.com'',
      mon_frequency = freq, mon_active = True, mon_createdAt = 0, mon_updatedAt = None,
      mon_lastScanAt = None, mon_lastScore = None, mon_nextScanAt = Some 500\<rparr>"

text \<open>
  A page with one image without \<^verbatim>\<open>alt\<close>, no language and the title \<^verbatim>\<open>Test\<close>; a page
  with one element of low contrast; and the same page with a second element whose color
  is the word \<^verbatim>\<open>constructor\<close>.
\<close>

definition example_page :: document where
  "example_page =
     empty_document\<lparr>imgs := [Img None (Some ''a.png'') None], title_text := ''Test''\<rparr>"

definition low_contrast_page :: document where
  "low_contrast_page =
     empty_document\<lparr>styled := [Styled ''color:#777;background-color:#fff'' ''Hello'']\<rparr>"

definition raising_page :: document where
  "raising_page =
     empty_document\<lparr>styled :=
       [Styled ''color:#777;background-color:#fff'' ''Hello'',
        Styled ''color:constructor;background:#fff'' ''World'']\<rparr>"

section \<open>Verification\<close>

subsection \<open>The blocks of \<^verbatim>\<open>scanHTML\<close>, one by one\<close>

text \<open>
  What each block adds to the identifiers of the issues, passes and warnings; none of
  them records an issue without a violation.
\<close>

lemma addIssue_ids:
  "issue_ids (addIssue k els st) = issue_ids st @ [rule_id k]"
  "pass_ids (addIssue k els st) = pass_ids st"
  "warning_ids (addIssue k els st) = warning_ids st"
  "counted (addIssue k els st) = (counted st \<and> els \<noteq> [])"
  by (auto simp: addIssue_def issue_ids_def pass_ids_def warning_ids_def counted_def rule_id_def
      Let_def rule.defs issue.defs)

lemma addPass_ids:
  "issue_ids (addPass k st) = issue_ids st"
  "pass_ids (addPass k st) = pass_ids st @ [rule_id k]"
  "warning_ids (addPass k st) = warning_ids st"
  "counted (addPass k st) = counted st"
  by (simp_all add: addPass_def issue_ids_def pass_ids_def warning_ids_def counted_def rule_id_def
      Let_def)

lemma addWarning_ids:
  "issue_ids (addWarning k msg st) = issue_ids st"
  "pass_ids (addWarning k msg st) = pass_ids st"
  "warning_ids (addWarning k msg st) = warning_ids st @ [rule_id k]"
  "counted (addWarning k msg st) = counted st"
  by (simp_all add: addWarning_def issue_ids_def pass_ids_def warning_ids_def counted_def
      rule_id_def Let_def rule.defs warning.defs)

lemmas add_ids = addIssue_ids addPass_ids addWarning_ids

lemma check_images_ids:
  "issue_ids (check_images d st) = issue_ids st @ (if imgsNoAlt d \<noteq> [] then [rule_id Missing_alt] else [])"
  "pass_ids (check_images d st) = pass_ids st @ (if imgsNoAlt d = [] then [rule_id Missing_alt] else [])"
  "warning_ids (check_images d st) = warning_ids st @ (if 3 < length (imgsEmptyAlt d) then [rule_id Empty_alt] else [])"
  "counted (check_images d st) = counted st"
  by (simp_all add: check_images_def Let_def add_ids)

lemma check_lang_ids:
  "issue_ids (check_lang d st) = issue_ids st @ (if \<not> truthy (lang_attr d) \<or> trim (orElse (lang_attr d) []) = [] then [rule_id Missing_lang] else [])"
  "pass_ids (check_lang d st) = pass_ids st @ (if \<not> (\<not> truthy (lang_attr d) \<or> trim (orElse (lang_attr d) []) = []) then [rule_id Missing_lang] else [])"
  "warning_ids (check_lang d st) = warning_ids st"
  "counted (check_lang d st) = counted st"
  by (simp_all add: check_lang_def Let_def add_ids)

lemma check_title_ids:
  "issue_ids (check_title d st) = issue_ids st @ (if trim (title_text d) = [] then [rule_id Missing_title] else [])"
  "pass_ids (check_title d st) = pass_ids st @ (if trim (title_text d) \<noteq> [] then [rule_id Missing_title] else [])"
  "warning_ids (check_title d st) = warning_ids st"
  "counted (check_title d st) = counted st"
  by (simp_all add: check_title_def Let_def add_ids)

lemma check_headings_ids:
  "issue_ids (check_headings d st) = issue_ids st @ (if headings d = [] then [rule_id Missing_heading] else [])"
  "pass_ids (check_headings d st) = pass_ids st @ (if headings d \<noteq> [] then [rule_id Missing_heading] else [])"
  "warning_ids (check_headings d st) = warning_ids st"
  "counted (check_headings d st) = counted st"
  by (simp_all add: check_headings_def Let_def add_ids)

lemma check_skipped_ids:
  "issue_ids (check_skipped d st) = issue_ids st @ (if skipped d \<noteq> [] then [rule_id Skipped_heading] else [])"
  "pass_ids (check_skipped d st) = pass_ids st @ (if skipped d = [] \<and> headings d \<noteq> [] then [rule_id Skipped_heading] else [])"
  "warning_ids (check_skipped d st) = warning_ids st"
  "counted (check_skipped d st) = counted st"
  by (simp_all add: check_skipped_def Let_def add_ids)

lemma check_form_labels_ids:
  "issue_ids (check_form_labels d st) = issue_ids st @ (if unlabeled d \<noteq> [] then [rule_id Missing_form_label] else [])"
  "pass_ids (check_form_labels d st) = pass_ids st @ (if unlabeled d = [] then [rule_id Missing_form_label] else [])"
  "warning_ids (check_form_labels d st) = warning_ids st"
  "counted (check_form_labels d st) = counted st"
  by (simp_all add: check_form_labels_def Let_def add_ids)

lemma check_empty_links_ids:
  "issue_ids (check_empty_links d st) = issue_ids st @ (if emptyLinks d \<noteq> [] then [rule_id Empty_link] else [])"
  "pass_ids (check_empty_links d st) = pass_ids st @ (if emptyLinks d = [] then [rule_id Empty_link] else [])"
  "warning_ids (check_empty_links d st) = warning_ids st"
  "counted (check_empty_links d st) = counted st"
  by (simp_all add: check_empty_links_def Let_def add_ids)

lemma check_empty_buttons_ids:
  "issue_ids (check_empty_buttons d st) = issue_ids st @ (if emptyBtns d \<noteq> [] then [rule_id Empty_button] else [])"
  "pass_ids (check_empty_buttons d st) = pass_ids st @ (if emptyBtns d = [] then [rule_id Empty_button] else [])"
  "warning_ids (check_empty_buttons d st) = warning_ids st"
  "counted (check_empty_buttons d st) = counted st"
  by (simp_all add: check_empty_buttons_def Let_def add_ids)

lemma check_viewport_ids:
  "issue_ids (check_viewport d st) = issue_ids st @ (if \<not> truthy (viewport_content d) then [rule_id Missing_viewport] else [])"
  "pass_ids (check_viewport d st) = pass_ids st @ (if truthy (viewport_content d) then [rule_id Missing_viewport] else [])"
  "warning_ids (check_viewport d st) = warning_ids st"
  "counted (check_viewport d st) = counted st"
  by (simp_all add: check_viewport_def Let_def add_ids)

lemma check_skip_link_ids:
  "issue_ids (check_skip_link d st) = issue_ids st @ (if False then [rule_id No_skip_link] else [])"
  "pass_ids (check_skip_link d st) = pass_ids st @ (if hasSkipLink d then [rule_id No_skip_link] else [])"
  "warning_ids (check_skip_link d st) = warning_ids st @ (if \<not> hasSkipLink d \<and> 0 < role_navigation d then [rule_id No_skip_link] else [])"
  "counted (check_skip_link d st) = counted st"
  by (simp_all add: check_skip_link_def Let_def add_ids)

lemma check_landmarks_ids:
  "issue_ids (check_landmarks d st) = issue_ids st @ (if landmarkCount d = 0 then [rule_id Missing_landmark] else [])"
  "pass_ids (check_landmarks d st) = pass_ids st @ (if landmarkCount d \<noteq> 0 then [rule_id Missing_landmark] else [])"
  "warning_ids (check_landmarks d st) = warning_ids st"
  "counted (check_landmarks d st) = counted st"
  by (simp_all add: check_landmarks_def Let_def add_ids)

lemma check_autoplay_ids:
  "issue_ids (check_autoplay d st) = issue_ids st @ (if autoplayMedia d \<noteq> [] then [rule_id Autoplay_media] else [])"
  "pass_ids (check_autoplay d st) = pass_ids st @ (if autoplayMedia d = [] then [rule_id Autoplay_media] else [])"
  "warning_ids (check_autoplay d st) = warning_ids st"
  "counted (check_autoplay d st) = counted st"
  by (simp_all add: check_autoplay_def Let_def add_ids)

lemma check_tabindex_ids:
  "issue_ids (check_tabindex d st) = issue_ids st @ (if posTab d \<noteq> [] then [rule_id Tabindex_positive] else [])"
  "pass_ids (check_tabindex d st) = pass_ids st @ (if posTab d = [] then [rule_id Tabindex_positive] else [])"
  "warning_ids (check_tabindex d st) = warning_ids st"
  "counted (check_tabindex d st) = counted st"
  by (simp_all add: check_tabindex_def Let_def add_ids)

lemma check_tables_ids:
  "issue_ids (check_tables d st) = issue_ids st @ (if tablesNoHeader d \<noteq> [] then [rule_id Missing_table_header] else [])"
  "pass_ids (check_tables d st) = pass_ids st @ (if tablesNoHeader d = [] \<and> dataTables d \<noteq> [] then [rule_id Missing_table_header] else [])"
  "warning_ids (check_tables d st) = warning_ids st"
  "counted (check_tables d st) = counted st"
  by (simp_all add: check_tables_def Let_def add_ids)

lemma check_meta_refresh_ids:
  "issue_ids (check_meta_refresh d st) = issue_ids st @ (if 0 < meta_refresh d then [rule_id Meta_refresh] else [])"
  "pass_ids (check_meta_refresh d st) = pass_ids st @ (if meta_refresh d = 0 then [rule_id Meta_refresh] else [])"
  "warning_ids (check_meta_refresh d st) = warning_ids st"
  "counted (check_meta_refresh d st) = counted st"
  by (simp_all add: check_meta_refresh_def Let_def add_ids)

lemma check_inline_color_ids:
  "issue_ids (check_inline_color d st) = issue_ids st @ (if False then [rule_id Inline_styles_text] else [])"
  "pass_ids (check_inline_color d st) = pass_ids st @ (if False then [rule_id Inline_styles_text] else [])"
  "warning_ids (check_inline_color d st) = warning_ids st @ (if 5 < inlineColorCount d then [rule_id Inline_styles_text] else [])"
  "counted (check_inline_color d st) = counted st"
  by (simp_all add: check_inline_color_def Let_def add_ids)

lemma check_keyboard_trap_ids:
  "issue_ids (check_keyboard_trap d st) = issue_ids st @ (if trapElements d \<noteq> [] then [rule_id Keyboard_trap] else [])"
  "pass_ids (check_keyboard_trap d st) = pass_ids st @ (if trapElements d = [] then [rule_id Keyboard_trap] else [])"
  "warning_ids (check_keyboard_trap d st) = warning_ids st"
  "counted (check_keyboard_trap d st) = counted st"
  by (simp_all add: check_keyboard_trap_def Let_def add_ids)

lemma check_focus_ids:
  "issue_ids (check_focus d st) = issue_ids st @ (if focusSuppressed d \<noteq> [] then [rule_id Missing_focus_style] else [])"
  "pass_ids (check_focus d st) = pass_ids st @ (if focusSuppressed d = [] then [rule_id Missing_focus_style] else [])"
  "warning_ids (check_focus d st) = warning_ids st"
  "counted (check_focus d st) = counted st"
  by (simp_all add: check_focus_def Let_def add_ids)

lemma check_generic_links_ids:
  "issue_ids (check_generic_links d st) = issue_ids st @ (if genericLinks d \<noteq> [] then [rule_id Generic_link_text] else [])"
  "pass_ids (check_generic_links d st) = pass_ids st @ (if genericLinks d = [] then [rule_id Generic_link_text] else [])"
  "warning_ids (check_generic_links d st) = warning_ids st"
  "counted (check_generic_links d st) = counted st"
  by (simp_all add: check_generic_links_def Let_def add_ids)

lemma check_keyboard_access_ids:
  "issue_ids (check_keyboard_access d st) = issue_ids st @ (if noKeyboard d \<noteq> [] then [rule_id Missing_keyboard_access] else [])"
  "pass_ids (check_keyboard_access d st) = pass_ids st @ (if noKeyboard d = [] then [rule_id Missing_keyboard_access] else [])"
  "warning_ids (check_keyboard_access d st) = warning_ids st"
  "counted (check_keyboard_access d st) = counted st"
  by (simp_all add: check_keyboard_access_def Let_def add_ids)

lemma check_contrast_ids:
  assumes "check_contrast d st = Inr st'"
  shows "\<exists>found. contrastIssues (styled d) = Inr found
     \<and> issue_ids st' = issue_ids st @ (if found \<noteq> [] then [rule_id Color_contrast_inline] else [])
     \<and> pass_ids st' = pass_ids st @ (if found = [] then [rule_id Color_contrast_inline] else [])
     \<and> warning_ids st' = warning_ids st
     \<and> counted st' = counted st"
proof (cases "contrastIssues (styled d)")
  case (Inl err)
  then show ?thesis using assms by (simp add: check_contrast_def)
next
  case (Inr found)
  then have "st' = (if length found > 0 then addIssue Color_contrast_inline found st
                    else addPass Color_contrast_inline st)"
    using assms by (simp add: check_contrast_def)
  then show ?thesis using Inr by (simp add: add_ids)
qed

lemmas check_ids =
  check_images_ids check_lang_ids check_title_ids check_headings_ids check_skipped_ids
  check_form_labels_ids check_empty_links_ids check_empty_buttons_ids check_viewport_ids
  check_skip_link_ids check_landmarks_ids check_autoplay_ids check_tabindex_ids
  check_tables_ids check_meta_refresh_ids check_inline_color_ids check_keyboard_trap_ids
  check_focus_ids check_generic_links_ids check_keyboard_access_ids

text \<open>The catalogue gives every rule an identifier of its own.\<close>

lemma rule_id_inj: "rule_id j = rule_id k \<longleftrightarrow> j = k"
  by (cases j; cases k; simp add: rule_id_def mkRule_def)

lemma count_list_snoc_if:
  "count_list (xs @ (if c then [y] else [])) x = count_list xs x + (if c \<and> x = y then 1 else 0)"
  by simp

lemma skipped_headings: "skipped d \<noteq> [] \<Longrightarrow> headings d \<noteq> []"
  by (auto simp: skipped_def Let_def)

lemma tablesNoHeader_dataTables: "tablesNoHeader d \<noteq> [] \<Longrightarrow> dataTables d \<noteq> []"
  by (auto simp: tablesNoHeader_def)

lemma report_fields:
  "issues (report d u now st) = issues st"
  "passes (report d u now st) = passes st"
  "warnings (report d u now st) = warnings st"
  "score (report d u now st) = calcScore (issues st) (passes st)"
  "complianceLevel (report d u now st) = calcLevel (issues st)"
  by (simp_all add: report_def scan_state.defs scan_result.defs)

lemma scanHTML_unfold:
  "scanHTML d u now =
     (case check_contrast d (before_contrast d) of
        Inl err \<Rightarrow> Inl err
      | Inr st \<Rightarrow> Inr (report d u now (after_contrast d st)))"
  by (simp add: scanHTML_def before_contrast_def after_contrast_def Let_def split: sum.splits)

lemma scan_report: "scanHTML d u now = Inr res \<Longrightarrow> \<exists>st. res = report d u now st"
  by (auto simp: scanHTML_unfold split: sum.splits)

text \<open>A scan returns when no color of an inline style makes \<^verbatim>\<open>parseColor\<close> raise.\<close>

lemma scanHTML_Inr: "contrastIssues (styled d) = Inr xs \<Longrightarrow> \<exists>r. scanHTML d u t = Inr r"
  by (simp add: scanHTML_def check_contrast_def Let_def)

lemma empty_ids:
  "issue_ids \<lparr>issues = [], warnings = [], passes = []\<rparr> = []"
  "pass_ids \<lparr>issues = [], warnings = [], passes = []\<rparr> = []"
  "warning_ids \<lparr>issues = [], warnings = [], passes = []\<rparr> = []"
  "counted \<lparr>issues = [], warnings = [], passes = []\<rparr>"
  by (simp_all add: issue_ids_def pass_ids_def warning_ids_def counted_def)

text \<open>What a returning scan holds for one rule.\<close>

lemma scan_outcome:
  assumes "scanHTML d u now = Inr res"
  shows "count_list (map rid (issues res)) (rule_id k)
           + count_list (map pass_id (passes res)) (rule_id k)
         = (if applicable d k then 1 else 0)"
    and "list_all (\<lambda>i. 0 < icount i \<and> elements i \<noteq> []) (issues res)"
    and "count_list (map rid (warnings res)) (rule_id No_skip_link)
         = (if \<not> hasSkipLink d \<and> 0 < role_navigation d then 1 else 0)"
    and "\<exists>found. contrastIssues (styled d) = Inr found
          \<and> count_list (map rid (issues res)) (rule_id Color_contrast_inline)
              = (if found \<noteq> [] then 1 else 0)"
proof -
  from assms obtain st17 where c: "check_contrast d (before_contrast d) = Inr st17"
    and res: "res = report d u now (after_contrast d st17)"
    by (auto simp: scanHTML_unfold split: sum.splits)
  from check_contrast_ids[OF c] obtain found where f: "contrastIssues (styled d) = Inr found"
    and i17: "issue_ids st17 = issue_ids (before_contrast d)
         @ (if found \<noteq> [] then [rule_id Color_contrast_inline] else [])"
    and p17: "pass_ids st17 = pass_ids (before_contrast d)
         @ (if found = [] then [rule_id Color_contrast_inline] else [])"
    and w17: "warning_ids st17 = warning_ids (before_contrast d)"
    and c17: "counted st17 = counted (before_contrast d)"
    by blast
  note unfold = after_contrast_def before_contrast_def check_ids i17 p17 w17 c17 empty_ids
  have ids: "map rid (issues res) = issue_ids (after_contrast d st17)"
      "map pass_id (passes res) = pass_ids (after_contrast d st17)"
      "map rid (warnings res) = warning_ids (after_contrast d st17)"
    by (simp_all add: res report_fields issue_ids_def pass_ids_def warning_ids_def)
  have sk: "skipped d \<noteq> [] \<longrightarrow> headings d \<noteq> []" using skipped_headings by blast
  have tb: "tablesNoHeader d \<noteq> [] \<longrightarrow> dataTables d \<noteq> []"
    using tablesNoHeader_dataTables by blast
  show "count_list (map rid (issues res)) (rule_id k)
           + count_list (map pass_id (passes res)) (rule_id k)
         = (if applicable d k then 1 else 0)"
    unfolding ids using sk tb
    by (cases k) (simp_all add: unfold count_list_snoc_if rule_id_inj applicable_def)
  have "counted (after_contrast d st17)" by (simp add: unfold)
  then show "list_all (\<lambda>i. 0 < icount i \<and> elements i \<noteq> []) (issues res)"
    by (simp add: counted_def res report_fields)
  show "count_list (map rid (warnings res)) (rule_id No_skip_link)
         = (if \<not> hasSkipLink d \<and> 0 < role_navigation d then 1 else 0)"
    unfolding ids by (simp add: unfold count_list_snoc_if rule_id_inj)
  have "count_list (map rid (issues res)) (rule_id Color_contrast_inline)
              = (if found \<noteq> [] then 1 else 0)"
    unfolding ids by (simp add: unfold count_list_snoc_if rule_id_inj)
  then show "\<exists>found. contrastIssues (styled d) = Inr found
          \<and> count_list (map rid (issues res)) (rule_id Color_contrast_inline)
              = (if found \<noteq> [] then 1 else 0)"
    using f by blast
qed

text \<open>The example page, evaluated.\<close>

lemma example_page_scan:
  "score (projr (scanHTML example_page ''https://example.com'' 0)) = 71
   \<and> complianceLevel (projr (scanHTML example_page ''https://example.com'' 0)) = Non_compliant"
  by code_simp

lemma example_page_returns: "\<exists>res. scanHTML example_page ''https://example.com'' 0 = Inr res"
  by (rule scanHTML_Inr[of _ "[]"]) (simp add: example_page_def empty_document_def)

subsection \<open>Score and compliance level\<close>

lemma Math_round_round: "Math_round x = round x"
  by (simp add: Math_round_def round_def)

lemma ratio_bounds:
  assumes "0 < p + i"
  shows "0 \<le> real p / real (p + i)" "real p / real (p + i) \<le> 1"
  using assms by (auto simp: divide_le_eq)

lemma calcScore_formula:
  "calcScore iss ps =
     (if 0 < length ps + length iss
      then round (100 * real (length ps) / real (length ps + length iss))
      else 0)
   \<and> 0 \<le> calcScore iss ps \<and> calcScore iss ps \<le> 100"
proof (cases "0 < length ps + length iss")
  case False
  then show ?thesis by (simp add: calcScore_def)
next
  case True
  let ?q = "real (length ps) / real (length ps + length iss)"
  have q: "0 \<le> ?q" "?q \<le> 1" using ratio_bounds[OF True] by simp_all
  have eq: "calcScore iss ps = round (?q * 100)"
    using True by (simp add: calcScore_def Let_def Math_round_round add.commute)
  have lo: "0 \<le> round (?q * 100)"
    using q(1) by (simp add: round_def)
  have "?q * 100 + 1 / 2 < 101" using q(2) by simp
  then have "\<lfloor>?q * 100 + 1 / 2\<rfloor> < 101" by (simp add: floor_less_iff)
  then have hi: "round (?q * 100) \<le> 100"
    unfolding round_def by linarith
  show ?thesis using True eq lo hi by (simp add: mult.commute)
qed

text \<open>
  Claim C1. The score of a scan is \<open>round (100 * passed / (passed + issued))\<close> when at
  least one rule produced an issue or a pass, it is 0 when none did, and it always lies
  between 0 and 100. This holds for the score of every scan that \<^verbatim>\<open>scanHTML\<close> returns,
  and for the score computation on any two arrays of issues and passes.
\<close>

theorem score_formula:
  "(scanHTML d u now = Inr res \<longrightarrow>
      score res =
        (if 0 < length (passes res) + length (issues res)
         then round (100 * real (length (passes res))
                      / real (length (passes res) + length (issues res)))
         else 0)
      \<and> 0 \<le> score res \<and> score res \<le> 100)
   \<and> calcScore iss ps =
       (if 0 < length ps + length iss
        then round (100 * real (length ps) / real (length ps + length iss))
        else 0)
   \<and> 0 \<le> calcScore iss ps \<and> calcScore iss ps \<le> 100"
proof -
  have "score res =
        (if 0 < length (passes res) + length (issues res)
         then round (100 * real (length (passes res))
                      / real (length (passes res) + length (issues res)))
         else 0)
      \<and> 0 \<le> score res \<and> score res \<le> 100" if "scanHTML d u now = Inr res"
  proof -
    from scan_report[OF that] obtain st where res: "res = report d u now st" by blast
    show ?thesis
      using calcScore_formula[of "issues st" "passes st"] by (simp add: res report_fields)
  qed
  then show ?thesis using calcScore_formula[of iss ps] by blast
qed

theorem score_formula_witness:
  "\<exists>res. scanHTML example_page ''https://example.com'' 0 = Inr res
     \<and> score res = 71 \<and> 0 \<le> score res \<and> score res \<le> 100"
proof -
  obtain res where res: "scanHTML example_page ''https://example.com'' 0 = Inr res"
    using example_page_returns by blast
  have "score res = 71" using example_page_scan by (simp add: res)
  then show ?thesis
    using res score_formula[of example_page "''https://example.com''" 0 res "[]" "[]"] by simp
qed

lemma count_image_mset_filter:
  "count (image_mset f (mset xs)) a = length (filter (\<lambda>x. f x = a) xs)"
  by (induction xs) auto

lemma calcLevel_spec_level: "calcLevel iss = spec_level (mset (map impact iss))"
proof -
  let ?c = "length (filter (\<lambda>i. impact i = Critical) iss)"
  let ?s = "length (filter (\<lambda>i. impact i = Serious) iss)"
  have c: "count (mset (map impact iss)) Critical = ?c"
    by (simp add: count_image_mset_filter)
  have s: "count (mset (map impact iss)) Serious = ?s"
    by (simp add: count_image_mset_filter)
  have e: "(mset (map impact iss) \<noteq> {#}) = (0 < length iss)" by simp
  show ?thesis
    unfolding calcLevel_def spec_level_def Let_def c s e
    by (simp add: Suc_le_eq)
qed

text \<open>
  Claim C2. The compliance level is the ordinal escalation of the multiset of issue
  severities: non-compliant with a critical issue, else partially-compliant with more
  than one serious issue, else needs-improvement with any issue, else compliant. This
  holds for the level of every scan that \<^verbatim>\<open>scanHTML\<close> returns and for the classification
  of any array of issues. One serious issue and no critical one gives needs-improvement.
\<close>

theorem compliance_escalation:
  "(scanHTML d u now = Inr res \<longrightarrow>
      complianceLevel res = spec_level (mset (map impact (issues res))))
   \<and> calcLevel iss = spec_level (mset (map impact iss))
   \<and> (length (filter (\<lambda>i. impact i = Serious) iss) = 1
        \<and> length (filter (\<lambda>i. impact i = Critical) iss) = 0
        \<longrightarrow> calcLevel iss = Needs_improvement)"
proof -
  have "complianceLevel res = spec_level (mset (map impact (issues res)))"
    if "scanHTML d u now = Inr res"
  proof -
    from scan_report[OF that] obtain st where res: "res = report d u now st" by blast
    show ?thesis using calcLevel_spec_level[of "issues st"] by (simp add: res report_fields)
  qed
  moreover have "length (filter (\<lambda>i. impact i = Serious) iss) = 1
        \<and> length (filter (\<lambda>i. impact i = Critical) iss) = 0
        \<longrightarrow> calcLevel iss = Needs_improvement"
    by (auto simp: calcLevel_def Let_def)
  ultimately show ?thesis using calcLevel_spec_level[of iss] by blast
qed

theorem compliance_escalation_witness:
  "(\<exists>res. scanHTML example_page ''https://example.com'' 0 = Inr res
      \<and> complianceLevel res = Non_compliant
      \<and> complianceLevel res = spec_level (mset (map impact (issues res))))
   \<and> calcLevel
       (issues (addIssue Missing_lang [Excerpt ''<html>'']
          \<lparr>issues = [], warnings = [], passes = []\<rparr>))
     = Needs_improvement"
proof -
  obtain res where res: "scanHTML example_page ''https://example.com'' 0 = Inr res"
    using example_page_returns by blast
  have 1: "complianceLevel res = Non_compliant" using example_page_scan by (simp add: res)
  have 2: "complianceLevel res = spec_level (mset (map impact (issues res)))"
    using compliance_escalation[of example_page "''https://example.com''" 0 res "[]"] res
    by blast
  have 3: "calcLevel
       (issues (addIssue Missing_lang [Excerpt ''<html>'']
          \<lparr>issues = [], warnings = [], passes = []\<rparr>))
     = Needs_improvement"
    using compliance_escalation
      [of example_page "''https://example.com''" 0 res
        "issues (addIssue Missing_lang [Excerpt ''<html>'']
           \<lparr>issues = [], warnings = [], passes = []\<rparr>)",
       THEN conjunct2, THEN conjunct2]
    by (simp add: addIssue_def mkRule_def rule.defs issue.defs)
  show ?thesis using res 1 2 3 by blast
qed

subsection \<open>One outcome per rule\<close>

text \<open>
  Claim C9. In the result of a scan every catalogue rule has at most one entry among the
  issues and passes together (so never an issue and a pass), exactly one when the rule is
  applicable to the document and none when it is not; every issue stands for at least
  one violation (its count is positive and it carries an excerpt); and the skip-link
  rule contributes a warning, and then nothing else, exactly when no skip link is found
  on a page with a navigation role.
\<close>

theorem one_outcome_per_rule:
  assumes "scanHTML d u now = Inr res"
  shows "(\<forall>k. count_list (map rid (issues res)) (rule_id k)
              + count_list (map pass_id (passes res)) (rule_id k) \<le> 1)
       \<and> (\<forall>k. applicable d k \<longrightarrow>
              count_list (map rid (issues res)) (rule_id k)
              + count_list (map pass_id (passes res)) (rule_id k) = 1)
       \<and> (\<forall>k. \<not> applicable d k \<longrightarrow>
              count_list (map rid (issues res)) (rule_id k) = 0
              \<and> count_list (map pass_id (passes res)) (rule_id k) = 0)
       \<and> list_all (\<lambda>i. 0 < icount i \<and> elements i \<noteq> []) (issues res)
       \<and> count_list (map rid (warnings res)) (rule_id No_skip_link)
           = (if \<not> hasSkipLink d \<and> 0 < role_navigation d then 1 else 0)"
proof -
  have sum: "count_list (map rid (issues res)) (rule_id k)
              + count_list (map pass_id (passes res)) (rule_id k)
            = (if applicable d k then 1 else 0)" for k
    using assms by (rule scan_outcome(1))
  have a: "count_list (map rid (issues res)) (rule_id k)
              + count_list (map pass_id (passes res)) (rule_id k) \<le> 1" for k
    using sum[of k] by simp
  have b: "count_list (map rid (issues res)) (rule_id k)
              + count_list (map pass_id (passes res)) (rule_id k) = 1" if "applicable d k" for k
    using sum[of k] that by simp
  have c: "count_list (map rid (issues res)) (rule_id k) = 0
              \<and> count_list (map pass_id (passes res)) (rule_id k) = 0"
    if "\<not> applicable d k" for k
    using sum[of k] that by simp
  show ?thesis
    using a b c scan_outcome(2)[OF assms] scan_outcome(3)[OF assms] by blast
qed

theorem one_outcome_per_rule_witness:
  "\<exists>res. scanHTML example_page ''https://example.com'' 0 = Inr res
     \<and> count_list (map rid (issues res)) ''missing-alt''
         + count_list (map pass_id (passes res)) ''missing-alt'' = 1
     \<and> count_list (map rid (issues res)) ''skipped-heading'' = 0
     \<and> count_list (map pass_id (passes res)) ''skipped-heading'' = 0
     \<and> list_all (\<lambda>i. 0 < icount i \<and> elements i \<noteq> []) (issues res)"
proof -
  obtain res where res: "scanHTML example_page ''https://example.com'' 0 = Inr res"
    using example_page_returns by blast
  have ap: "applicable example_page Missing_alt" "\<not> applicable example_page Skipped_heading"
    by (simp_all add: applicable_def example_page_def empty_document_def)
  have ids: "rule_id Missing_alt = ''missing-alt''" "rule_id Skipped_heading = ''skipped-heading''"
    by (simp_all add: rule_id_def mkRule_def)
  from one_outcome_per_rule[OF res] ap ids
  have "count_list (map rid (issues res)) ''missing-alt''
         + count_list (map pass_id (passes res)) ''missing-alt'' = 1
     \<and> count_list (map rid (issues res)) ''skipped-heading'' = 0
     \<and> count_list (map pass_id (passes res)) ''skipped-heading'' = 0
     \<and> list_all (\<lambda>i. 0 < icount i \<and> elements i \<noteq> []) (issues res)"
    by metis
  then show ?thesis using res by blast
qed

subsection \<open>Color contrast\<close>

lemma powr_12_5_gt:
  fixes a c :: real
  assumes "0 < a" "0 \<le> c" "c ^ 5 < a ^ 12"
  shows "c < a powr (12 / 5)"
proof (rule ccontr)
  assume "\<not> c < a powr (12 / 5)"
  then have le: "a powr (12 / 5) \<le> c" by simp
  have nn: "0 \<le> a powr (12 / 5)" by simp
  have "(a powr (12 / 5)) ^ 5 \<le> c ^ 5" using le nn by (rule power_mono)
  moreover have "(a powr (12 / 5)) ^ 5 = a ^ 12"
  proof -
    have "(a powr (12 / 5)) ^ 5 = (a powr (12 / 5)) powr (real 5)"
      using assms(1) by (simp add: powr_realpow del: of_nat_numeral)
    also have "\<dots> = a powr 12" by (simp add: powr_powr)
    also have "\<dots> = a ^ 12" using assms(1) powr_realpow[of a 12] by simp
    finally show ?thesis .
  qed
  ultimately show False using assms(3) by simp
qed

lemma lum_white: "relativeLuminance (RGB 255 255 255) = 1"
  by (simp add: relativeLuminance_def linearize_def)

text \<open>The luminance of \<^verbatim>\<open>#777\<close> lies between \<open>11/60\<close> and 1 (it is about 0.184).\<close>

lemma lum_777:
  "11 / 60 < relativeLuminance (RGB 119 119 119)"
  "relativeLuminance (RGB 119 119 119) < 1"
proof -
  let ?y = "((119 / 255 + 0.055) / 1.055 :: real)"
  have lin: "linearize (119 / 255) = ?y powr (12 / 5)"
    by (simp add: linearize_def)
  have lum: "relativeLuminance (RGB 119 119 119) = linearize (119 / 255)"
    by (simp add: relativeLuminance_def)
  have "(11 / 60 :: real) < ?y powr (12 / 5)"
    by (rule powr_12_5_gt) (simp_all add: power_divide divide_less_eq)
  then show "11 / 60 < relativeLuminance (RGB 119 119 119)" using lin lum by simp
  have "?y powr (12 / 5) < 1"
    by (subst powr01_less_one) simp_all
  then show "relativeLuminance (RGB 119 119 119) < 1" using lin lum by simp
qed

text \<open>The contrast of \<^verbatim>\<open>#777\<close> on \<^verbatim>\<open>#fff\<close> is below 4.5 (it is about 4.48).\<close>

lemma ratio_777_fff: "contrastRatio (RGB 119 119 119) (RGB 255 255 255) < 4.5"
  using lum_777
  by (simp add: contrastRatio_def Let_def lum_white max_def min_def divide_less_eq)

lemma parse_777: "parseColor ''#777'' = Inr (Some (RGB 119 119 119))"
  by code_simp

lemma parse_fff: "parseColor ''#fff'' = Inr (Some (RGB 255 255 255))"
  by code_simp

lemma parse_constructor:
  "parseColor ''constructor'' = Inl (TypeError ''colorStr.match is not a function'')"
  by code_simp

lemma match_example:
  "exec True re_color ''color:#777;background-color:#fff'' = Some [''#777'']"
  "exec True re_background ''color:#777;background-color:#fff'' = Some [''#fff'']"
  by code_simp+

lemma match_constructor:
  "exec True re_color ''color:constructor;background:#fff'' = Some [''constructor'']"
  "exec True re_background ''color:constructor;background:#fff'' = Some [''#fff'']"
  by code_simp+

lemma trim_example: "trim ''#777'' = ''#777''" "trim ''#fff'' = ''#fff''"
  by code_simp+

text \<open>
  Where the claim holds. For one element whose style matches both expressions, the loop
  body pushes a message exactly when both captured expressions parse to a color and the
  ratio of the two colors is below 4.5.
\<close>

lemma contrastExcerpt_iff:
  assumes "exec True re_color (s_style el) = Some [fgE]"
    and "exec True re_background (s_style el) = Some [bgE]"
  shows "(\<exists>m. contrastExcerpt el = Inr (Some m))
     \<longleftrightarrow> (\<exists>fg bg. parseColor fgE = Inr (Some fg) \<and> parseColor bgE = Inr (Some bg)
                   \<and> contrastRatio fg bg < 4.5)"
  using assms
  by (auto simp: contrastExcerpt_def Let_def split: sum.splits option.splits)

lemma contrastExcerpt_example:
  "contrastExcerpt (Styled ''color:#777;background-color:#fff'' txt)
     = Inr (Some (Contrast_excerpt
         (let text = take 40 (trim txt) in if text \<noteq> [] then text else ''(element)'')
         (contrastRatio (RGB 119 119 119) (RGB 255 255 255)) ''#777'' ''#fff''))"
  using ratio_777_fff
  by (simp add: contrastExcerpt_def match_example parse_777 parse_fff trim_example Let_def)

lemma contrastIssues_length:
  "contrastIssues els = Inr found
     \<Longrightarrow> length found = length (filter (\<lambda>el. \<exists>m. contrastExcerpt el = Inr (Some m)) els)"
  by (induction els arbitrary: found) (auto split: sum.splits option.splits)

lemma contrastIssues_nonempty:
  assumes "contrastIssues els = Inr found"
  shows "found \<noteq> [] \<longleftrightarrow> list_ex (\<lambda>el. \<exists>m. contrastExcerpt el = Inr (Some m)) els"
proof -
  let ?P = "\<lambda>el. \<exists>m. contrastExcerpt el = Inr (Some m)"
  have "length found = length (filter ?P els)"
    using assms by (rule contrastIssues_length)
  then have "found \<noteq> [] \<longleftrightarrow> filter ?P els \<noteq> []"
    by (metis length_0_conv)
  also have "\<dots> \<longleftrightarrow> list_ex ?P els"
    by (simp add: list_ex_iff filter_empty_conv)
  finally show ?thesis .
qed

text \<open>
  A scan that returns has the contrast issue exactly when the loop body pushes a message
  for some element, and the scenario of the specification produces the issue.
\<close>

lemma contrast_issue_iff:
  assumes "scanHTML d u now = Inr res"
  shows "count_list (map rid (issues res)) ''color-contrast-inline''
       = (if list_ex (\<lambda>el. \<exists>m. contrastExcerpt el = Inr (Some m)) (styled d) then 1 else 0)"
proof -
  from scan_outcome(4)[OF assms] obtain found where
    f: "contrastIssues (styled d) = Inr found"
    and c: "count_list (map rid (issues res)) (rule_id Color_contrast_inline)
              = (if found \<noteq> [] then 1 else 0)"
    by blast
  have "rule_id Color_contrast_inline = ''color-contrast-inline''"
    by (simp add: rule_id_def mkRule_def)
  then show ?thesis using c contrastIssues_nonempty[OF f] by simp
qed

lemma low_contrast_scenario:
  "\<exists>res. scanHTML low_contrast_page ''https://example.com'' 0 = Inr res
     \<and> count_list (map rid (issues res)) ''color-contrast-inline'' = 1"
proof -
  have "\<exists>xs. contrastIssues (styled low_contrast_page) = Inr xs"
    by (simp add: low_contrast_page_def empty_document_def contrastExcerpt_example)
  then obtain res where res: "scanHTML low_contrast_page ''https://example.com'' 0 = Inr res"
    using scanHTML_Inr by blast
  have "list_ex (\<lambda>el. \<exists>m. contrastExcerpt el = Inr (Some m)) (styled low_contrast_page)"
    by (simp add: low_contrast_page_def empty_document_def contrastExcerpt_example)
  then show ?thesis using contrast_issue_iff[OF res] res by simp
qed

text \<open>\<^verbatim>\<open>parseColor\<close> raises for the two inherited keys and for nothing else.\<close>

lemma parseColor_raises:
  "(\<exists>e. parseColor s = Inl e)
     \<longleftrightarrow> s \<noteq> [] \<and> toLowerCase (trim s) \<in> {''constructor'', ''__proto__''}"
  by (auto simp: parseColor_def namedColors_def Let_def split: js_prop.splits option.splits
      dest: map_of_SomeD)

text \<open>
  Claim C3 fails on the code. An expression that is not a color must make \<^verbatim>\<open>parseColor\<close>
  return \<^verbatim>\<open>null\<close>, so that the check of the element is skipped. For the expression
  \<^verbatim>\<open>constructor\<close> the lookup in the table of named colors finds the property that every
  object inherits, and \<^verbatim>\<open>parseColor\<close> raises a \<^verbatim>\<open>TypeError\<close>: the loop body fails for the
  element, and the scan of a page that also holds an element of low contrast ends with
  the error instead of recording the violation.
\<close>

theorem contrast_scan_raises:
  "parseColor ''constructor'' = Inl (TypeError ''colorStr.match is not a function'')
   \<and> contrastExcerpt (Styled ''color:constructor;background:#fff'' ''World'')
       = Inl (TypeError ''colorStr.match is not a function'')
   \<and> scanHTML raising_page ''https://example.com'' 0
       = Inl (TypeError ''colorStr.match is not a function'')"
proof -
  have e: "contrastExcerpt (Styled ''color:constructor;background:#fff'' ''World'')
       = Inl (TypeError ''colorStr.match is not a function'')"
    by (simp add: contrastExcerpt_def match_constructor parse_constructor)
  have "contrastIssues (styled raising_page)
      = Inl (TypeError ''colorStr.match is not a function'')"
    by (simp add: raising_page_def empty_document_def e contrastExcerpt_example)
  then have "scanHTML raising_page ''https://example.com'' 0
       = Inl (TypeError ''colorStr.match is not a function'')"
    by (simp add: scanHTML_unfold check_contrast_def)
  then show ?thesis using e parse_constructor by simp
qed

theorem contrast_scan_raises_witness:
  "\<exists>e. scanHTML raising_page ''https://example.com'' 0 = Inl e"
  using contrast_scan_raises by simp

subsection \<open>Page fetcher\<close>

lemma receive_no_throw: "receive acc cs fin \<noteq> Inl (Get_threw e)"
  by (induction cs arbitrary: acc) (auto simp: Let_def split: ending.splits)

lemma receive_no_HTTP: "receive acc cs fin \<noteq> Inl (HTTP c)"
  by (induction cs arbitrary: acc) (auto simp: Let_def split: ending.splits)

lemma receive_End:
  "length (acc @ concat cs) \<le> 5 * 1024 * 1024 \<Longrightarrow> receive acc cs End = Inr (acc @ concat cs)"
  by (induction cs arbitrary: acc) (auto simp: Let_def)

text \<open>Only the first request of a fetch can surface the exception of \<^verbatim>\<open>protocol.get\<close>.\<close>

lemma doFetch_Get_threw:
  "doFetch n r u = Inl (Get_threw e) \<Longrightarrow> get n u = Get_throws e"
  by (subst (asm) doFetch.simps)
     (auto simp: receive_no_throw split: net_event.splits if_splits option.splits sum.splits
        fetch_error.splits)

lemma doFetch_redirect:
  assumes "get n u = Response res" "isRedirect res" "r < 5"
    "resolveURL n (orElse (location res) []) u = Some v" "\<not> throws (get n v)"
  shows "doFetch n r u = doFetch n (Suc r) v"
proof -
  have nt: "\<And>e. doFetch n (Suc r) v \<noteq> Inl (Get_threw e)"
    using assms(5) doFetch_Get_threw[of n "Suc r" v] by (auto simp: throws_def)
  show ?thesis
    using assms(1-4) nt
    by (subst doFetch.simps) (auto split: sum.splits fetch_error.splits)
qed

lemma doFetch_chain:
  "redirect_chain n u vs \<Longrightarrow> r + length vs \<le> 5
     \<Longrightarrow> doFetch n r u = doFetch n (r + length vs) (last (u # vs))"
proof (induction vs arbitrary: u r)
  case Nil
  then show ?case by simp
next
  case (Cons v vs)
  from Cons.prems(1) obtain res where res: "get n u = Response res" "isRedirect res"
      "resolveURL n (orElse (location res) []) u = Some v" "\<not> throws (get n v)"
      "redirect_chain n v vs"
    by (auto split: net_event.splits)
  have "doFetch n r u = doFetch n (Suc r) v"
    using res Cons.prems(2) by (intro doFetch_redirect) auto
  also have "\<dots> = doFetch n (Suc r + length vs) (last (v # vs))"
    using Cons.IH[OF res(5)] Cons.prems(2) by simp
  finally show ?case by simp
qed



lemma doFetch_terminal:
  assumes "get n u = Response res" "\<not> isRedirect res"
  shows "doFetch n r u =
           (if statusCode res \<noteq> 200 then Inl (HTTP (statusCode res))
            else receive [] (chunks res) (ending res))"
  using assms by (subst doFetch.simps) simp

lemma fetchHTML_doFetch:
  "parseURL n (withScheme s) = Some u \<Longrightarrow> fetchHTML n s = doFetch n 0 u"
  by (simp add: fetchHTML_def)

lemma withScheme_example: "withScheme ''https://a'' = ''https://a''"
  by (simp add: withScheme_def test_def exec_def matchAt_def re_scheme_def litMatches_def
      toLowerCase_def lowerChar_def)



text \<open>
  Claim C6, as stated, fails: the fetcher accepts the status 200 only, so the terminal
  2xx response 204 is rejected with an HTTP-status error.
\<close>

theorem status_204_rejected: "fetchHTML (status_net 204) ''https://a'' = Inl (HTTP 204)"
  by (simp add: fetchHTML_def withScheme_example status_net_def doFetch.simps isRedirect_def
      truthy_def)

text \<open>
  Claim C6, amended. A fetch that reaches a terminal response fails with an HTTP-status
  error exactly when the status code is not 200, the error carrying that code; on a 200
  response whose body ends normally within the 5 MiB ceiling it returns the text of the
  body.
\<close>

theorem terminal_status:
  assumes "parseURL n (withScheme s) = Some u" and "redirect_chain n u vs" and "length vs \<le> 5"
    and "get n (last (u # vs)) = Response res" and "\<not> isRedirect res"
  shows "((\<exists>c. fetchHTML n s = Inl (HTTP c)) \<longleftrightarrow> statusCode res \<noteq> 200)
       \<and> (statusCode res \<noteq> 200 \<longrightarrow> fetchHTML n s = Inl (HTTP (statusCode res)))
       \<and> (statusCode res = 200 \<and> ending res = End
            \<and> length (concat (chunks res)) \<le> 5 * 1024 * 1024
          \<longrightarrow> fetchHTML n s = Inr (concat (chunks res)))"
proof -
  have f: "fetchHTML n s =
      (if statusCode res \<noteq> 200 then Inl (HTTP (statusCode res))
       else receive [] (chunks res) (ending res))"
    using fetchHTML_doFetch[OF assms(1)] doFetch_chain[OF assms(2), of 0] assms(3)
      doFetch_terminal[OF assms(4,5), of "length vs"]
    by simp
  have a: "(\<exists>c. fetchHTML n s = Inl (HTTP c)) \<longleftrightarrow> statusCode res \<noteq> 200"
    using f by (auto simp: receive_no_HTTP)
  have b: "statusCode res = 200 \<and> ending res = End
            \<and> length (concat (chunks res)) \<le> 5 * 1024 * 1024
          \<longrightarrow> fetchHTML n s = Inr (concat (chunks res))"
    using f receive_End[of "[]" "chunks res"] by simp
  show ?thesis using a b f by simp
qed

theorem terminal_status_witness:
  "fetchHTML (status_net 200) ''https://a'' = Inr ''<html></html>''
   \<and> fetchHTML (status_net 404) ''https://a'' = Inl (HTTP 404)"
proof -
  have 1: "fetchHTML (status_net 200) ''https://a'' = Inr ''<html></html>''"
    using terminal_status [of "status_net 200" "''https://a''" "''https://a''" "[]"
      "\<lparr>statusCode = 200, location = None, chunks = [''<html>'', ''</html>''], ending = End\<rparr>"]
    by (simp add: withScheme_example status_net_def isRedirect_def truthy_def)
  have 2: "fetchHTML (status_net 404) ''https://a'' = Inl (HTTP 404)"
    using terminal_status [of "status_net 404" "''https://a''" "''https://a''" "[]"
      "\<lparr>statusCode = 404, location = None, chunks = [''<html>'', ''</html>''], ending = End\<rparr>"]
    by (simp add: withScheme_example status_net_def isRedirect_def truthy_def)
  show ?thesis using 1 2 by simp
qed

subsection \<open>History diff\<close>

lemma foldl_Set_add:
  "set (foldl Set_add acc xs) = set acc \<union> set xs
   \<and> (distinct acc \<longrightarrow> distinct (foldl Set_add acc xs))"
  by (induction xs arbitrary: acc) (auto simp: Set_add_def)

lemma set_new_Set: "set (new_Set xs) = set xs"
  by (simp add: new_Set_def foldl_Set_add)

lemma distinct_new_Set: "distinct (new_Set xs)"
  by (simp add: new_Set_def foldl_Set_add)

lemma diffOf_sets:
  "set (issuesFixed (diffOf prev scan)) = set (map rid (issues prev)) - set (map rid (issues scan))"
  "set (newIssues (diffOf prev scan)) = set (map rid (issues scan)) - set (map rid (issues prev))"
  "distinct (issuesFixed (diffOf prev scan))"
  "distinct (newIssues (diffOf prev scan))"
  "issuesFixedCount (diffOf prev scan) = length (issuesFixed (diffOf prev scan))"
  "newIssuesCount (diffOf prev scan) = length (newIssues (diffOf prev scan))"
  by (auto simp: diffOf_def Let_def Set_has_def set_new_Set distinct_new_Set)

lemma diffOf_counts:
  "issuesFixedCount (diffOf prev scan)
     = card (set (map rid (issues prev)) - set (map rid (issues scan)))"
  "newIssuesCount (diffOf prev scan)
     = card (set (map rid (issues scan)) - set (map rid (issues prev)))"
  using diffOf_sets[of prev scan] distinct_card by metis+

text \<open>
  Claim C4. For two consecutive records of a history the diff lists the rule identifiers
  that are issues of the earlier and not of the later record (fixed) and of the later
  and not of the earlier record (new), and counts them; when both records have the same
  set of issue rule identifiers both counts are 0, whatever the occurrence counts are.
\<close>

theorem pairwise_diff_set_difference:
  assumes "0 < i" and "i < length urlScans"
  shows "\<exists>d. e_diff (history urlScans ! i) = Some d
     \<and> set (issuesFixed d) = set (map rid (issues (urlScans ! (i - 1))))
                               - set (map rid (issues (urlScans ! i)))
     \<and> set (newIssues d) = set (map rid (issues (urlScans ! i)))
                             - set (map rid (issues (urlScans ! (i - 1))))
     \<and> issuesFixedCount d = card (set (map rid (issues (urlScans ! (i - 1))))
                                   - set (map rid (issues (urlScans ! i))))
     \<and> newIssuesCount d = card (set (map rid (issues (urlScans ! i)))
                                 - set (map rid (issues (urlScans ! (i - 1)))))
     \<and> (set (map rid (issues (urlScans ! (i - 1)))) = set (map rid (issues (urlScans ! i)))
          \<longrightarrow> issuesFixedCount d = 0 \<and> newIssuesCount d = 0)"
proof -
  let ?d = "diffOf (urlScans ! (i - 1)) (urlScans ! i)"
  have "e_diff (history urlScans ! i) = Some ?d"
    using assms by (simp add: history_def historyEntry_def Let_def)
  moreover have "set (map rid (issues (urlScans ! (i - 1)))) = set (map rid (issues (urlScans ! i)))
          \<longrightarrow> issuesFixedCount ?d = 0 \<and> newIssuesCount ?d = 0"
    by (simp add: diffOf_counts)
  ultimately show ?thesis
    using diffOf_sets(1,2)[of "urlScans ! (i - 1)" "urlScans ! i"]
          diffOf_counts[of "urlScans ! (i - 1)" "urlScans ! i"]
    by blast
qed

lemma example_record_ids: "map rid (issues (example_record ident now els)) = [''missing-alt'']"
  by (simp add: example_record_def report_def addIssue_def mkRule_def
      scan_result.defs scan_record.defs scan_state.defs rule.defs issue.defs)

theorem pairwise_diff_witness:
  "\<exists>d. e_diff (history [example_record ''a'' 0 [Excerpt ''x''],
                        example_record ''b'' 1 [Excerpt ''x'', Excerpt ''y'']] ! 1) = Some d
     \<and> issuesFixedCount d = 0 \<and> newIssuesCount d = 0"
  using pairwise_diff_set_difference
    [of 1 "[example_record ''a'' 0 [Excerpt ''x''],
            example_record ''b'' 1 [Excerpt ''x'', Excerpt ''y'']]"]
  by (auto simp: example_record_ids)

subsection \<open>Monitor scheduler\<close>

text \<open>What the \<^verbatim>\<open>try\<close> block does in each of the four ways in which it can end.\<close>

lemma tryBlock_failure:
  assumes "tryScan w i m = Inl err"
  shows "tryBlock w now i m h = (Some err, m, h)"
  using assms by (simp add: tryBlock_def)

lemma tryBlock_history_write:
  assumes "tryScan w i m = Inr result" "writeFileSync w i History_file = Some msg"
  shows "tryBlock w now i m h
       = (Some (Write_failed History_file msg), m,
          saveHistory (h @ [scan_result.extend result (scan_record.fields (uuid_at w i))]))"
  using assms by (simp add: tryBlock_def Let_def)

lemma tryBlock_monitors_write:
  assumes "tryScan w i m = Inr result" "writeFileSync w i History_file = None"
    and "writeFileSync w i Monitors_file = Some msg"
  shows "tryBlock w now i m h
       = (Some (Write_failed Monitors_file msg),
          m\<lparr>mon_lastScanAt := Some now, mon_lastScore := Some (score result),
            mon_nextScanAt := Some (now + intervalMs (mon_frequency m))\<rparr>,
          saveHistory (h @ [scan_result.extend result (scan_record.fields (uuid_at w i))]))"
  using assms by (simp add: tryBlock_def Let_def)

lemma tryBlock_success:
  assumes "tryScan w i m = Inr result" "writeFileSync w i History_file = None"
    and "writeFileSync w i Monitors_file = None"
  shows "tryBlock w now i m h
       = (None,
          m\<lparr>mon_lastScanAt := Some now, mon_lastScore := Some (score result),
            mon_nextScanAt := Some (now + intervalMs (mon_frequency m))\<rparr>,
          saveHistory (h @ [scan_result.extend result (scan_record.fields (uuid_at w i))]))"
  using assms by (simp add: tryBlock_def Let_def)

lemma tryBlock_throws:
  "(fst (tryBlock w now i m h) = None)
     = (\<not> isl (tryScan w i m) \<and> writeFileSync w i History_file = None
        \<and> writeFileSync w i Monitors_file = None)"
  by (simp add: tryBlock_def Let_def split: sum.splits option.splits)

lemma tryBlock_monitor_indep:
  "fst (snd (tryBlock w now i m h)) = fst (snd (tryBlock w now i m h'))"
  by (simp add: tryBlock_def Let_def split: sum.splits option.splits)

lemma scanMonitor_due:
  assumes "due now m"
  shows "scanMonitor w now i m h = snd (tryBlock w now i m h)"
  using assms by (auto simp: scanMonitor_def due_def split: option.splits)

lemma scanMonitor_fst_indep:
  "fst (scanMonitor w now i m h) = fst (scanMonitor w now i m h')"
  using tryBlock_monitor_indep[of w now i m h h'] by (simp add: scanMonitor_def)

lemma scanLoop_Cons_fst:
  "fst (scanLoop w now i (m # ms) h)
     = fst (scanMonitor w now i m h)
       # fst (scanLoop w now (Suc i) ms (snd (scanMonitor w now i m h)))"
  by (simp split: prod.splits)

lemma scanLoop_Cons_snd:
  "snd (scanLoop w now i (m # ms) h)
     = snd (scanLoop w now (Suc i) ms (snd (scanMonitor w now i m h)))"
  by (simp split: prod.splits)

lemma scanLoop_length: "length (fst (scanLoop w now i ms h)) = length ms"
  by (induction ms arbitrary: i h) (simp_all add: scanLoop_Cons_fst del: scanLoop.simps(2))

text \<open>Each monitor is processed by the loop body at its own position.\<close>

lemma scanLoop_nth:
  "j < length ms \<Longrightarrow> fst (scanLoop w now i ms h) ! j = fst (scanMonitor w now (i + j) (ms ! j) h')"
proof (induction ms arbitrary: i j h)
  case Nil
  then show ?case by simp
next
  case (Cons m ms)
  show ?case
  proof (cases j)
    case 0
    then show ?thesis
      using scanMonitor_fst_indep[of w now i m h h']
      by (simp add: scanLoop_Cons_fst del: scanLoop.simps(2))
  next
    case (Suc k)
    then have "k < length ms" using Cons.prems by simp
    from Cons.IH[OF this, of "Suc i"] Suc show ?thesis
      by (simp add: scanLoop_Cons_fst del: scanLoop.simps(2))
  qed
qed

lemma scanLoop_snd_cong:
  assumes "length ms = length ms'"
    and "\<And>j H. j < length ms \<Longrightarrow>
           snd (scanMonitor w now (i + j) (ms ! j) H) = snd (scanMonitor w now (i + j) (ms' ! j) H)"
  shows "snd (scanLoop w now i ms h) = snd (scanLoop w now i ms' h)"
  using assms
proof (induction ms arbitrary: ms' i h)
  case Nil
  then show ?case by simp
next
  case (Cons m ms)
  then obtain m' ms1 where ms': "ms' = m' # ms1" "length ms = length ms1"
    by (cases ms') auto
  have hd: "snd (scanMonitor w now i m h) = snd (scanMonitor w now i m' h)"
    using Cons.prems(2)[of 0 h] ms' by simp
  have tl: "\<And>j H. j < length ms \<Longrightarrow>
      snd (scanMonitor w now (Suc i + j) (ms ! j) H) = snd (scanMonitor w now (Suc i + j) (ms1 ! j) H)"
    using Cons.prems(2)[of "Suc _"] ms' by simp
  have "snd (scanLoop w now (Suc i) ms H) = snd (scanLoop w now (Suc i) ms1 H)" for H
    using Cons.IH[OF ms'(2) tl] by simp
  then show ?case using hd ms' by (simp add: scanLoop_Cons_snd del: scanLoop.simps(2))
qed

lemma run_nth:
  assumes "j < length monitors"
  shows "fst (runScheduledScans w now monitors h) ! j
       = fst (scanMonitor w now j (monitors ! j) h')"
  using scanLoop_nth[OF assms, of w now 0 h h'] by (simp add: runScheduledScans_def)

lemma scanMonitor_success:
  assumes "due now m" "tryScan w i m = Inr result"
    and "writeFileSync w i History_file = None" "writeFileSync w i Monitors_file = None"
  shows "fst (scanMonitor w now i m h)
       = m\<lparr>mon_lastScanAt := Some now, mon_lastScore := Some (score result),
            mon_nextScanAt := Some (now + intervalMs (mon_frequency m))\<rparr>"
  using scanMonitor_due[OF assms(1)] tryBlock_success[OF assms(2,3,4)] by simp

lemma scanMonitor_failure:
  assumes "tryScan w i m = Inl err"
  shows "scanMonitor w now i m h = (m, h)"
  using tryBlock_failure[OF assms] by (simp add: scanMonitor_def)

lemma scanMonitor_inactive:
  "scanMonitor w now i (m\<lparr>mon_active := False\<rparr>) h = (m\<lparr>mon_active := False\<rparr>, h)"
  by (simp add: scanMonitor_def)

text \<open>
  A monitor whose next-due time was set to the end of its interval is skipped until then,
  and a monitor that is due stays due.
\<close>

lemma due_later:
  assumes "due now m" "now \<le> later"
  shows "due later m"
  using assms by (auto simp: due_def split: option.splits)

lemma not_due_before:
  assumes "later < t"
  shows "\<not> due later (m\<lparr>mon_lastScanAt := a, mon_lastScore := b, mon_nextScanAt := Some t\<rparr>)"
  using assms by (simp add: due_def)

text \<open>The fetches and scans of the example worlds.\<close>

lemma fetch_status_200:
  "fetchHTML (status_net 200) ''https://a'' = Inr ''<html></html>''"
  by (simp add: fetchHTML_def withScheme_example status_net_def doFetch.simps isRedirect_def
      truthy_def)

lemma scan_empty_document:
  "\<exists>r. scanHTML empty_document u t = Inr r"
  by (rule scanHTML_Inr[of _ "[]"]) (simp add: empty_document_def)

lemma tryScan_example_0:
  "tryScan example_world 0 (example_monitor ident freq) = Inl (Fetch_failed (HTTP 500))"
  by (simp add: tryScan_def example_world_def example_monitor_def fetchHTML_def
      withScheme_example status_net_def doFetch.simps isRedirect_def truthy_def)

lemma tryScan_example_Suc:
  "\<exists>r. tryScan example_world (Suc k) (example_monitor ident freq) = Inr r"
proof -
  obtain r where "scanHTML empty_document ''https://a'' (clock_at example_world (Suc k)) = Inr r"
    using scan_empty_document by blast
  then show ?thesis
    using fetch_status_200
    by (simp add: tryScan_def example_world_def example_monitor_def)
qed

lemma tryScan_read_only:
  "\<exists>r. tryScan read_only_world k (example_monitor ident freq) = Inr r"
proof -
  obtain r where "scanHTML empty_document ''https://a'' (clock_at read_only_world k) = Inr r"
    using scan_empty_document by blast
  then show ?thesis
    using fetch_status_200
    by (simp add: tryScan_def read_only_world_def example_monitor_def)
qed

lemma leavesTimer_status:
  "\<not> leavesTimer (status_net code) ''https://a''"
  by (simp add: leavesTimer_def withScheme_example status_net_def staleTimer.simps isRedirect_def
      truthy_def)

lemma processExits_example:
  "\<not> processExits example_world now (map (\<lambda>p. example_monitor (fst p) (snd p)) ps)"
  using leavesTimer_status
  by (simp add: processExits_def list_ex_iff example_world_def example_monitor_def)

text \<open>
  A redirect from \<^verbatim>\<open>https\<close> to \<^verbatim>\<open>http\<close> is answered with \<^verbatim>\<open>Invalid redirect URL\<close>, and it
  leaves the timer of the nested request behind.
\<close>

lemma cross_scheme_redirect:
  "fetchHTML cross_scheme_net ''https://a'' = Inl Invalid_redirect_URL
   \<and> leavesTimer cross_scheme_net ''https://a''"
  by (simp add: fetchHTML_def leavesTimer_def withScheme_example cross_scheme_net_def
      doFetch.simps staleTimer.simps isRedirect_def truthy_def orElse_def)

text \<open>
  Claim C7. After a successful scheduled scan of a due monitor, which is a \<^verbatim>\<open>try\<close> block
  that runs to its end without throwing, the scheduler has set the next-due time of the
  monitor to the time of the tick plus the interval of its frequency, which is 24 hours
  for daily, 7 days for weekly and a fixed 30 days for monthly; it has also recorded the
  time of the tick and the score, and left the frequency as it is.
\<close>

theorem next_due_after_scan:
  assumes "i < length monitors" and "due now (monitors ! i)"
    and "tryScan w i (monitors ! i) = Inr result"
    and "fst (tryBlock w now i (monitors ! i) h) = None"
  shows "(let m' = fst (runScheduledScans w now monitors h) ! i
          in mon_nextScanAt m' = Some (now + intervalMs (mon_frequency (monitors ! i)))
             \<and> mon_frequency m' = mon_frequency (monitors ! i)
             \<and> mon_lastScanAt m' = Some now
             \<and> mon_lastScore m' = Some (score result))
       \<and> intervalMs ''daily'' = 24 * 60 * 60 * 1000
       \<and> intervalMs ''weekly'' = 7 * 24 * 60 * 60 * 1000
       \<and> intervalMs ''monthly'' = 30 * 24 * 60 * 60 * 1000"
proof -
  have written: "writeFileSync w i History_file = None" "writeFileSync w i Monitors_file = None"
    using assms(4) by (simp_all add: tryBlock_throws)
  have "fst (runScheduledScans w now monitors h) ! i
      = fst (scanMonitor w now i (monitors ! i) h)"
    using assms(1) by (rule run_nth)
  then show ?thesis
    using scanMonitor_success[OF assms(2,3) written, of h]
    by (simp add: Let_def intervalMs_def)
qed

theorem next_due_after_scan_witness:
  "mon_nextScanAt (fst (runScheduledScans example_world 1000
       [example_monitor ''m0'' ''weekly'', example_monitor ''m1'' ''monthly''] []) ! 1)
     = Some (1000 + 30 * 24 * 60 * 60 * 1000)"
proof -
  obtain r where r: "tryScan example_world (Suc 0) (example_monitor ''m1'' ''monthly'') = Inr r"
    using tryScan_example_Suc by blast
  have d: "due 1000 (example_monitor ''m1'' ''monthly'')"
    by (simp add: due_def example_monitor_def)
  have wr: "writeFileSync example_world (Suc 0) f = None" for f
    by (simp add: example_world_def)
  have ends: "fst (tryBlock example_world 1000 (Suc 0) (example_monitor ''m1'' ''monthly'') [])
      = None"
    using r wr by (simp add: tryBlock_throws)
  show ?thesis
    using next_due_after_scan
        [of 1 "[example_monitor ''m0'' ''weekly'', example_monitor ''m1'' ''monthly'']"
          1000 example_world r "[]"] r d ends
    by (simp add: Let_def example_monitor_def)
qed

text \<open>
  Claim C10 fails as it stands: the \<^verbatim>\<open>try\<close> block also throws when one of its two file
  writes does, and by then it has changed the state. In a world where the monitors file
  cannot be written, the block of a due weekly monitor throws, and yet the run has moved
  the next-due time of the monitor from 500 to the end of its interval, recorded the
  time of the tick, and appended a record to the history.
\<close>

theorem write_failure_changes_monitor:
  "fst (tryBlock read_only_world 1000 0 (example_monitor ''m0'' ''weekly'') [])
     = Some (Write_failed Monitors_file ''EACCES'')
   \<and> mon_nextScanAt (example_monitor ''m0'' ''weekly'') = Some 500
   \<and> mon_lastScanAt (example_monitor ''m0'' ''weekly'') = None
   \<and> mon_nextScanAt (fst (runScheduledScans read_only_world 1000
         [example_monitor ''m0'' ''weekly''] []) ! 0) = Some 604801000
   \<and> mon_lastScanAt (fst (runScheduledScans read_only_world 1000
         [example_monitor ''m0'' ''weekly''] []) ! 0) = Some 1000
   \<and> map sid (snd (runScheduledScans read_only_world 1000
         [example_monitor ''m0'' ''weekly''] [])) = [''0'']"
proof -
  obtain r where r: "tryScan read_only_world 0 (example_monitor ''m0'' ''weekly'') = Inr r"
    using tryScan_read_only by blast
  have wh: "writeFileSync read_only_world 0 History_file = None"
    and wm: "writeFileSync read_only_world 0 Monitors_file = Some ''EACCES''"
    by (simp_all add: read_only_world_def)
  have d: "due 1000 (example_monitor ''m0'' ''weekly'')"
    by (simp add: due_def example_monitor_def)
  have u: "uuid_at read_only_world 0 = ''0''"
    by code_simp
  show ?thesis
    using tryBlock_monitors_write[OF r wh wm, of 1000 "[]"] scanMonitor_due[OF d, of read_only_world 0 "[]"] u
    by (simp add: runScheduledScans_def saveHistory_def intervalMs_def example_monitor_def
        scan_result.defs scan_record.defs)
qed

text \<open>
  Claim C10, amended. While the process keeps running, the \<^verbatim>\<open>try\<close> block of the monitor
  at position \<open>i\<close> throws in exactly three ways.

  \<^item> The fetch of the page or its scan throws. Then the loop body leaves the monitor and
    the history as they are: all fields of the monitor are unchanged, the history after
    the run is the one of a run without that monitor (no record is appended for it), and
    the monitor, if it was due, is due again at every later tick.

  \<^item> Writing the history file throws. Then the record of the scan has been appended to
    the history, the monitor is unchanged and it is due again at every later tick.

  \<^item> Writing the monitors file throws. Then the record has been appended and the monitor
    carries the time of the tick, the score and the new next-due time, so that it is not
    due again before its interval has passed.

  In every case each monitor of the array is still processed by the loop body at its own
  position.
\<close>

theorem failed_scan_isolated:
  assumes "i < length monitors" and "\<not> processExits w now monitors"
  shows "(\<forall>h'. (fst (tryBlock w now i (monitors ! i) h') = None)
             = (\<not> isl (tryScan w i (monitors ! i))
                \<and> writeFileSync w i History_file = None
                \<and> writeFileSync w i Monitors_file = None))
       \<and> (\<forall>err. tryScan w i (monitors ! i) = Inl err \<longrightarrow>
             (\<forall>h'. scanMonitor w now i (monitors ! i) h' = (monitors ! i, h'))
           \<and> fst (runScheduledScans w now monitors h) ! i = monitors ! i
           \<and> snd (runScheduledScans w now monitors h)
               = snd (runScheduledScans w now
                        (monitors[i := (monitors ! i)\<lparr>mon_active := False\<rparr>]) h)
           \<and> (\<forall>later. due now (monitors ! i) \<and> now \<le> later
                 \<longrightarrow> due later (fst (runScheduledScans w now monitors h) ! i)))
       \<and> (\<forall>result msg.
             due now (monitors ! i) \<and> tryScan w i (monitors ! i) = Inr result
             \<and> writeFileSync w i History_file = Some msg \<longrightarrow>
             (\<forall>h'. scanMonitor w now i (monitors ! i) h'
                  = (monitors ! i,
                     saveHistory (h' @ [scan_result.extend result
                                          (scan_record.fields (uuid_at w i))])))
           \<and> fst (runScheduledScans w now monitors h) ! i = monitors ! i
           \<and> (\<forall>later. now \<le> later
                 \<longrightarrow> due later (fst (runScheduledScans w now monitors h) ! i)))
       \<and> (\<forall>result msg.
             due now (monitors ! i) \<and> tryScan w i (monitors ! i) = Inr result
             \<and> writeFileSync w i History_file = None
             \<and> writeFileSync w i Monitors_file = Some msg \<longrightarrow>
             (\<forall>h'. scanMonitor w now i (monitors ! i) h'
                  = ((monitors ! i)\<lparr>mon_lastScanAt := Some now,
                        mon_lastScore := Some (score result),
                        mon_nextScanAt := Some (now + intervalMs (mon_frequency (monitors ! i)))\<rparr>,
                     saveHistory (h' @ [scan_result.extend result
                                          (scan_record.fields (uuid_at w i))])))
           \<and> fst (runScheduledScans w now monitors h) ! i
               = (monitors ! i)\<lparr>mon_lastScanAt := Some now,
                    mon_lastScore := Some (score result),
                    mon_nextScanAt := Some (now + intervalMs (mon_frequency (monitors ! i)))\<rparr>
           \<and> (\<forall>later. later < now + intervalMs (mon_frequency (monitors ! i))
                 \<longrightarrow> \<not> due later (fst (runScheduledScans w now monitors h) ! i)))
       \<and> (\<forall>j h'. j < length monitors
             \<longrightarrow> fst (runScheduledScans w now monitors h) ! j
                   = fst (scanMonitor w now j (monitors ! j) h'))"
proof -
  let ?m = "monitors ! i"
  let ?run = "fst (runScheduledScans w now monitors h)"
  have nth: "?run ! j = fst (scanMonitor w now j (monitors ! j) h')"
    if "j < length monitors" for j h'
    using that by (rule run_nth)
  have ways: "(fst (tryBlock w now i ?m h') = None)
             = (\<not> isl (tryScan w i ?m) \<and> writeFileSync w i History_file = None
                \<and> writeFileSync w i Monitors_file = None)" for h'
    by (rule tryBlock_throws)
  have fetch: "(\<forall>h'. scanMonitor w now i ?m h' = (?m, h'))
      \<and> ?run ! i = ?m
      \<and> snd (runScheduledScans w now monitors h)
          = snd (runScheduledScans w now (monitors[i := ?m\<lparr>mon_active := False\<rparr>]) h)
      \<and> (\<forall>later. due now ?m \<and> now \<le> later \<longrightarrow> due later (?run ! i))"
    if failed: "tryScan w i ?m = Inl err" for err
  proof -
    have body: "scanMonitor w now i ?m h' = (?m, h')" for h'
      using failed by (rule scanMonitor_failure)
    have same: "?run ! i = ?m"
      using nth[OF assms(1), of h] body[of h] by simp
    have hist: "snd (runScheduledScans w now monitors h)
        = snd (runScheduledScans w now (monitors[i := ?m\<lparr>mon_active := False\<rparr>]) h)"
      unfolding runScheduledScans_def
    proof (rule scanLoop_snd_cong)
      show "length monitors = length (monitors[i := ?m\<lparr>mon_active := False\<rparr>])"
        by simp
    next
      fix j H
      assume "j < length monitors"
      then show "snd (scanMonitor w now (0 + j) (monitors ! j) H)
          = snd (scanMonitor w now (0 + j)
                   (monitors[i := ?m\<lparr>mon_active := False\<rparr>] ! j) H)"
        using body[of H] by (cases "j = i") (simp_all add: scanMonitor_inactive)
    qed
    have later: "due later (?run ! i)" if "due now ?m" "now \<le> later" for later
      using due_later[OF that] same by simp
    show ?thesis using body same hist later by blast
  qed
  have history: "(\<forall>h'. scanMonitor w now i ?m h'
          = (?m, saveHistory (h' @ [scan_result.extend result
                                      (scan_record.fields (uuid_at w i))])))
      \<and> ?run ! i = ?m
      \<and> (\<forall>later. now \<le> later \<longrightarrow> due later (?run ! i))"
    if d: "due now ?m" and r: "tryScan w i ?m = Inr result"
      and wh: "writeFileSync w i History_file = Some msg" for result msg
  proof -
    have body: "scanMonitor w now i ?m h'
        = (?m, saveHistory (h' @ [scan_result.extend result
                                    (scan_record.fields (uuid_at w i))]))" for h'
      using scanMonitor_due[OF d, of w i h'] tryBlock_history_write[OF r wh, of now h']
      by simp
    have same: "?run ! i = ?m"
      using nth[OF assms(1), of h] body[of h] by simp
    have later: "due later (?run ! i)" if "now \<le> later" for later
      using due_later[OF d that] same by simp
    show ?thesis using body same later by blast
  qed
  have monitors: "(\<forall>h'. scanMonitor w now i ?m h'
          = (?m\<lparr>mon_lastScanAt := Some now, mon_lastScore := Some (score result),
                mon_nextScanAt := Some (now + intervalMs (mon_frequency ?m))\<rparr>,
             saveHistory (h' @ [scan_result.extend result
                                  (scan_record.fields (uuid_at w i))])))
      \<and> ?run ! i = ?m\<lparr>mon_lastScanAt := Some now, mon_lastScore := Some (score result),
                         mon_nextScanAt := Some (now + intervalMs (mon_frequency ?m))\<rparr>
      \<and> (\<forall>later. later < now + intervalMs (mon_frequency ?m) \<longrightarrow> \<not> due later (?run ! i))"
    if d: "due now ?m" and r: "tryScan w i ?m = Inr result"
      and wh: "writeFileSync w i History_file = None"
      and wm: "writeFileSync w i Monitors_file = Some msg" for result msg
  proof -
    have body: "scanMonitor w now i ?m h'
        = (?m\<lparr>mon_lastScanAt := Some now, mon_lastScore := Some (score result),
              mon_nextScanAt := Some (now + intervalMs (mon_frequency ?m))\<rparr>,
           saveHistory (h' @ [scan_result.extend result
                                (scan_record.fields (uuid_at w i))]))" for h'
      using scanMonitor_due[OF d, of w i h'] tryBlock_monitors_write[OF r wh wm, of now h']
      by simp
    have same: "?run ! i = ?m\<lparr>mon_lastScanAt := Some now, mon_lastScore := Some (score result),
                         mon_nextScanAt := Some (now + intervalMs (mon_frequency ?m))\<rparr>"
      using nth[OF assms(1), of h] body[of h] by simp
    have later: "\<not> due later (?run ! i)"
      if "later < now + intervalMs (mon_frequency ?m)" for later
      using not_due_before[OF that] same by simp
    show ?thesis using body same later by blast
  qed
  show ?thesis
    using ways fetch history monitors nth by blast
qed

theorem failed_scan_isolated_witness:
  "fst (runScheduledScans example_world 1000
       (map (\<lambda>p. example_monitor (fst p) (snd p))
          [(''m0'', ''weekly''), (''m1'', ''monthly''), (''m2'', ''daily''), (''m3'', ''daily'')])
       []) ! 0
     = example_monitor ''m0'' ''weekly''
   \<and> due 4601000 (fst (runScheduledScans example_world 1000
       (map (\<lambda>p. example_monitor (fst p) (snd p))
          [(''m0'', ''weekly''), (''m1'', ''monthly''), (''m2'', ''daily''), (''m3'', ''daily'')])
       []) ! 0)
   \<and> fst (runScheduledScans example_world 1000
       (map (\<lambda>p. example_monitor (fst p) (snd p))
          [(''m0'', ''weekly''), (''m1'', ''monthly''), (''m2'', ''daily''), (''m3'', ''daily'')])
       []) ! 2
     = example_monitor ''m2'' ''daily''
   \<and> mon_nextScanAt (fst (runScheduledScans example_world 1000
       (map (\<lambda>p. example_monitor (fst p) (snd p))
          [(''m0'', ''weekly''), (''m1'', ''monthly''), (''m2'', ''daily''), (''m3'', ''daily'')])
       []) ! 3)
     = Some 86401000"
proof -
  let ?ms = "map (\<lambda>p. example_monitor (fst p) (snd p))
          [(''m0'', ''weekly''), (''m1'', ''monthly''), (''m2'', ''daily''), (''m3'', ''daily'')]"
  obtain r2 where r2: "tryScan example_world 2 (example_monitor ''m2'' ''daily'') = Inr r2"
    using tryScan_example_Suc[of 1] by (auto simp: numeral_2_eq_2)
  obtain r3 where r3: "tryScan example_world 3 (example_monitor ''m3'' ''daily'') = Inr r3"
    using tryScan_example_Suc[of 2] by (auto simp: numeral_3_eq_3)
  have w2: "writeFileSync example_world 2 History_file = Some ''ENOSPC''"
    and w3: "writeFileSync example_world 3 History_file = None"
      "writeFileSync example_world 3 Monitors_file = Some ''EACCES''"
    by (simp_all add: example_world_def)
  have d: "due 1000 (example_monitor ident freq)" for ident freq
    by (simp add: due_def example_monitor_def)
  have ex: "\<not> processExits example_world 1000 ?ms"
    by (rule processExits_example)
  have len: "0 < length ?ms" "2 < length ?ms" "3 < length ?ms"
    by simp_all
  show ?thesis
    using failed_scan_isolated[OF len(1) ex, of "[]"]
      failed_scan_isolated[OF len(2) ex, of "[]"]
      failed_scan_isolated[OF len(3) ex, of "[]"]
      tryScan_example_0[of "''m0''" "''weekly''"] r2 r3 w2 w3 d
    by (simp add: intervalMs_def example_monitor_def due_def)
qed

subsection \<open>Monitor registration\<close>

text \<open>
  Claim C8 fails on the code. The lookup of an existing monitor compares the stored
  address, which was trimmed and lower-cased when the monitor was created, with the
  address of the request as it was sent. Two registrations with the same URL and the
  same address \<^verbatim>\<open>Ada@Example.com\<close>, first weekly and then daily, leave two monitors for
  the pair, and the first one stays weekly.
\<close>

theorem reregistration_duplicates:
  "snd (post_monitor (\<lambda>s. True) ''id-2'' 2000 (Some ''example.com'') (Some ''Ada@Example.com'')
         (Some ''daily'')
         (snd (post_monitor (\<lambda>s. True) ''id-1'' 1000 (Some ''example.com'')
                 (Some ''Ada@Example.com'') (Some ''weekly'') [])))
   = [\<lparr>mon_id = ''id-1'', mon_url = ''https://example.com'', mon_email = ''ada@example.com'',
       mon_frequency = ''weekly'', mon_active = True, mon_createdAt = 1000,
       mon_updatedAt = None, mon_lastScanAt = None, mon_lastScore = None,
       mon_nextScanAt = Some 604801000\<rparr>,
      \<lparr>mon_id = ''id-2'', mon_url = ''https://example.com'', mon_email = ''ada@example.com'',
       mon_frequency = ''daily'', mon_active = True, mon_createdAt = 2000,
       mon_updatedAt = None, mon_lastScanAt = None, mon_lastScore = None,
       mon_nextScanAt = Some 86402000\<rparr>]"
  by code_simp

theorem reregistration_duplicates_witness:
  "length (snd (post_monitor (\<lambda>s. True) ''id-2'' 2000 (Some ''example.com'')
                 (Some ''Ada@Example.com'') (Some ''daily'')
                 (snd (post_monitor (\<lambda>s. True) ''id-1'' 1000 (Some ''example.com'')
                         (Some ''Ada@Example.com'') (Some ''weekly'') [])))) = 2"
  using reregistration_duplicates by simp

text \<open>
  For an address that is already in the stored form the second registration updates the
  one record, as the claim says.
\<close>

lemma reregistration_updates:
  assumes "truthy url_field" "truthy email_field" "test False re_email (orElse email_field [])"
    and "validURL (withScheme (trim (orElse url_field [])))"
    and "toLowerCase (trim (orElse email_field [])) = orElse email_field []"
  shows "\<exists>m. snd (post_monitor validURL id2 t2 url_field email_field f2
            (snd (post_monitor validURL id1 t1 url_field email_field f1 []))) = [m]
          \<and> mon_frequency m = orElse f2 ''weekly'' \<and> mon_active m"
  using assms by (simp add: post_monitor_def Let_def)

end
